theory Spec2Isabelle
  imports Main
begin

section \<open>Go values shared by the packages\<close>

text \<open>
  A Go pointer or interface value that may be nil is an \<open>option\<close> (\<open>None\<close> is nil).
  Values of library types the repository only passes around (object metadata, requests
  and responses of the provider SDK, connection details, credentials) are opaque: the
  type variable \<open>'x\<close> stands for them.

  A panic (a nil dereference, a call through a nil function value) is the outcome
  \<open>Panic\<close>.
\<close>

datatype 'a outcome = Panic | Return 'a

text \<open>
  Errors. \<open>errors_New\<close> is \<open>errors.New\<close> and \<open>withMessage\<close> the value built by
  \<open>errors.Wrap\<close> of github.com/pkg/errors (the recorded call stack is left out);
  \<open>fmt_Errorf\<close> is \<open>fmt.Errorf\<close> on a format without verbs. Clients may return any
  error value.
\<close>

datatype error = errors_New string | fmt_Errorf string | withMessage error string

text \<open>\<open>errors.Wrap\<close> returns nil when the error it is given is nil.\<close>

fun errors_Wrap :: "error option \<Rightarrow> string \<Rightarrow> error option" where
  "errors_Wrap None message = None"
| "errors_Wrap (Some err) message = Some (withMessage err message)"

text \<open>\<open>resource.Ignore\<close> of crossplane-runtime: nil when the predicate holds of the error.\<close>

definition Ignore :: "(error option \<Rightarrow> bool) \<Rightarrow> error option \<Rightarrow> error option" where
  "Ignore pred err = (if pred err then None else err)"

subsection \<open>Objects behind pointers\<close>

text \<open>
  A store holds the objects of one struct type that pointers refer to: an address is
  a natural number, the addresses below \<open>allocated\<close> are in use. \<open>new\<close> is Go's
  \<open>new(T)\<close>: it hands out the next address (what the cell holds before the first
  write is never read by the code modelled here).
\<close>

record 'a store =
  cells :: "nat \<Rightarrow> 'a"
  allocated :: nat

definition valid :: "'a store \<Rightarrow> nat \<Rightarrow> bool" where
  "valid s p = (p < allocated s)"

definition deref :: "'a store \<Rightarrow> nat \<Rightarrow> 'a" where
  "deref s p = cells s p"

definition assign :: "'a store \<Rightarrow> nat \<Rightarrow> 'a \<Rightarrow> 'a store" where
  "assign s p v = s\<lparr>cells := (cells s)(p := v)\<rparr>"

definition new :: "'a store \<Rightarrow> nat \<times> 'a store" where
  "new s = (allocated s, s\<lparr>allocated := Suc (allocated s)\<rparr>)"

section \<open>apis/vlan/v1alpha1: generated deep copies\<close>

text \<open>
  The struct declarations are not among the sources; the records have the fields the
  generated code names, and one field for the fields it copies with \<open>*out = *in\<close>
  only. A slice is a list behind an option (a nil slice is \<open>None\<close>). A pointer field
  (\<open>Description\<close>, \<open>CreatedAt\<close>) is an option holding the value pointed to, so
  \<open>*out = new(string); **out = **in\<close> stores that value again; only the pointers to
  the six structs themselves are addresses of a store.
\<close>

record 'x VirtualNetworkParameters =
  Description :: "string option"
  ParametersOther :: 'x

record 'x VirtualNetworkObservation =
  CreatedAt :: "'x option"
  ObservationOther :: 'x

record 'x VirtualNetworkSpec =
  VN_ResourceSpec :: 'x
  VN_ForProvider :: "'x VirtualNetworkParameters"

record 'x VirtualNetworkStatus =
  VN_ResourceStatus :: 'x
  VN_AtProvider :: "'x VirtualNetworkObservation"

record 'x VirtualNetwork =
  VN_TypeMeta :: 'x
  VN_ObjectMeta :: 'x
  VN_Spec :: "'x VirtualNetworkSpec"
  VN_Status :: "'x VirtualNetworkStatus"

record 'x VirtualNetworkList =
  VNL_TypeMeta :: 'x
  VNL_ListMeta :: 'x
  Items :: "'x VirtualNetwork list option"

text \<open>
  The deep copies of the embedded library types (apimachinery, crossplane-runtime) are
  parameters: each takes the receiver and what \<open>out\<close> holds, and gives what it writes
  to \<open>out\<close>. \<open>Time_DeepCopy\<close> is the pointer method \<open>(*metav1.Time).DeepCopy\<close>.
\<close>

record 'x library_copies =
  ObjectMeta_DeepCopyInto :: "'x \<Rightarrow> 'x \<Rightarrow> 'x"
  ListMeta_DeepCopyInto :: "'x \<Rightarrow> 'x \<Rightarrow> 'x"
  ResourceSpec_DeepCopyInto :: "'x \<Rightarrow> 'x \<Rightarrow> 'x"
  ResourceStatus_DeepCopyInto :: "'x \<Rightarrow> 'x \<Rightarrow> 'x"
  Time_DeepCopy :: "'x option \<Rightarrow> 'x option"

text \<open>
  Each \<open>DeepCopyInto\<close> gives the value it leaves in \<open>*out\<close>. Its first statement,
  \<open>*out = *in\<close>, overwrites all of \<open>*out\<close>, so that value does not depend on what
  \<open>out\<close> held before.
\<close>

definition VirtualNetworkParameters_DeepCopyInto ::
  "'x VirtualNetworkParameters \<Rightarrow> 'x VirtualNetworkParameters" where
  "VirtualNetworkParameters_DeepCopyInto inp =
     (let out = inp in
      case Description inp of
        None \<Rightarrow> out
      | Some s \<Rightarrow> out\<lparr>Description := Some s\<rparr>)"

definition VirtualNetworkObservation_DeepCopyInto ::
  "'x library_copies \<Rightarrow> 'x VirtualNetworkObservation \<Rightarrow> 'x VirtualNetworkObservation" where
  "VirtualNetworkObservation_DeepCopyInto lib inp =
     (let out = inp in
      case CreatedAt inp of
        None \<Rightarrow> out
      | Some t \<Rightarrow> out\<lparr>CreatedAt := Time_DeepCopy lib (Some t)\<rparr>)"

definition VirtualNetworkSpec_DeepCopyInto ::
  "'x library_copies \<Rightarrow> 'x VirtualNetworkSpec \<Rightarrow> 'x VirtualNetworkSpec" where
  "VirtualNetworkSpec_DeepCopyInto lib inp =
     (let out = inp;
          out = out\<lparr>VN_ResourceSpec :=
                  ResourceSpec_DeepCopyInto lib (VN_ResourceSpec inp) (VN_ResourceSpec out)\<rparr>;
          out = out\<lparr>VN_ForProvider := VirtualNetworkParameters_DeepCopyInto (VN_ForProvider inp)\<rparr>
      in out)"

definition VirtualNetworkStatus_DeepCopyInto ::
  "'x library_copies \<Rightarrow> 'x VirtualNetworkStatus \<Rightarrow> 'x VirtualNetworkStatus" where
  "VirtualNetworkStatus_DeepCopyInto lib inp =
     (let out = inp;
          out = out\<lparr>VN_ResourceStatus :=
                  ResourceStatus_DeepCopyInto lib (VN_ResourceStatus inp) (VN_ResourceStatus out)\<rparr>;
          out = out\<lparr>VN_AtProvider :=
                  VirtualNetworkObservation_DeepCopyInto lib (VN_AtProvider inp)\<rparr>
      in out)"

definition VirtualNetwork_DeepCopyInto ::
  "'x library_copies \<Rightarrow> 'x VirtualNetwork \<Rightarrow> 'x VirtualNetwork" where
  "VirtualNetwork_DeepCopyInto lib inp =
     (let out = inp;
          out = out\<lparr>VN_TypeMeta := VN_TypeMeta inp\<rparr>;
          out = out\<lparr>VN_ObjectMeta :=
                  ObjectMeta_DeepCopyInto lib (VN_ObjectMeta inp) (VN_ObjectMeta out)\<rparr>;
          out = out\<lparr>VN_Spec := VirtualNetworkSpec_DeepCopyInto lib (VN_Spec inp)\<rparr>;
          out = out\<lparr>VN_Status := VirtualNetworkStatus_DeepCopyInto lib (VN_Status inp)\<rparr>
      in out)"

text \<open>The loop over \<open>range *in\<close> of \<open>VirtualNetworkList.DeepCopyInto\<close>.\<close>

primrec Items_DeepCopyInto ::
  "'x library_copies \<Rightarrow> 'x VirtualNetwork list \<Rightarrow> 'x VirtualNetwork list" where
  "Items_DeepCopyInto lib [] = []"
| "Items_DeepCopyInto lib (v # vs) = VirtualNetwork_DeepCopyInto lib v # Items_DeepCopyInto lib vs"

definition VirtualNetworkList_DeepCopyInto ::
  "'x library_copies \<Rightarrow> 'x VirtualNetworkList \<Rightarrow> 'x VirtualNetworkList" where
  "VirtualNetworkList_DeepCopyInto lib inp =
     (let out = inp;
          out = out\<lparr>VNL_TypeMeta := VNL_TypeMeta inp\<rparr>;
          out = out\<lparr>VNL_ListMeta :=
                  ListMeta_DeepCopyInto lib (VNL_ListMeta inp) (VNL_ListMeta out)\<rparr>
      in case Items inp of
           None \<Rightarrow> out
         | Some vs \<Rightarrow> out\<lparr>Items := Some (Items_DeepCopyInto lib vs)\<rparr>)"

text \<open>
  \<open>DeepCopy\<close>: nil for a nil receiver; otherwise \<open>out := new(T)\<close>,
  \<open>in.DeepCopyInto(out)\<close>, \<open>return out\<close>.
\<close>

definition VirtualNetwork_DeepCopy ::
  "'x library_copies \<Rightarrow> 'x VirtualNetwork store \<Rightarrow> nat option
     \<Rightarrow> nat option \<times> 'x VirtualNetwork store" where
  "VirtualNetwork_DeepCopy lib s inp =
     (case inp of
        None \<Rightarrow> (None, s)
      | Some p \<Rightarrow>
          let (out, s) = new s;
              s = assign s out (VirtualNetwork_DeepCopyInto lib (deref s p))
          in (Some out, s))"

definition VirtualNetworkList_DeepCopy ::
  "'x library_copies \<Rightarrow> 'x VirtualNetworkList store \<Rightarrow> nat option
     \<Rightarrow> nat option \<times> 'x VirtualNetworkList store" where
  "VirtualNetworkList_DeepCopy lib s inp =
     (case inp of
        None \<Rightarrow> (None, s)
      | Some p \<Rightarrow>
          let (out, s) = new s;
              s = assign s out (VirtualNetworkList_DeepCopyInto lib (deref s p))
          in (Some out, s))"

definition VirtualNetworkObservation_DeepCopy ::
  "'x library_copies \<Rightarrow> 'x VirtualNetworkObservation store \<Rightarrow> nat option
     \<Rightarrow> nat option \<times> 'x VirtualNetworkObservation store" where
  "VirtualNetworkObservation_DeepCopy lib s inp =
     (case inp of
        None \<Rightarrow> (None, s)
      | Some p \<Rightarrow>
          let (out, s) = new s;
              s = assign s out (VirtualNetworkObservation_DeepCopyInto lib (deref s p))
          in (Some out, s))"

definition VirtualNetworkParameters_DeepCopy ::
  "'x VirtualNetworkParameters store \<Rightarrow> nat option
     \<Rightarrow> nat option \<times> 'x VirtualNetworkParameters store" where
  "VirtualNetworkParameters_DeepCopy s inp =
     (case inp of
        None \<Rightarrow> (None, s)
      | Some p \<Rightarrow>
          let (out, s) = new s;
              s = assign s out (VirtualNetworkParameters_DeepCopyInto (deref s p))
          in (Some out, s))"

definition VirtualNetworkSpec_DeepCopy ::
  "'x library_copies \<Rightarrow> 'x VirtualNetworkSpec store \<Rightarrow> nat option
     \<Rightarrow> nat option \<times> 'x VirtualNetworkSpec store" where
  "VirtualNetworkSpec_DeepCopy lib s inp =
     (case inp of
        None \<Rightarrow> (None, s)
      | Some p \<Rightarrow>
          let (out, s) = new s;
              s = assign s out (VirtualNetworkSpec_DeepCopyInto lib (deref s p))
          in (Some out, s))"

definition VirtualNetworkStatus_DeepCopy ::
  "'x library_copies \<Rightarrow> 'x VirtualNetworkStatus store \<Rightarrow> nat option
     \<Rightarrow> nat option \<times> 'x VirtualNetworkStatus store" where
  "VirtualNetworkStatus_DeepCopy lib s inp =
     (case inp of
        None \<Rightarrow> (None, s)
      | Some p \<Rightarrow>
          let (out, s) = new s;
              s = assign s out (VirtualNetworkStatus_DeepCopyInto lib (deref s p))
          in (Some out, s))"

text \<open>
  What the claim about the copies says. The library copies are structural copies when
  each gives back a value equal to its receiver. The result of a \<open>DeepCopy\<close> of the
  object at \<open>p\<close> is a new equal copy when it is a pointer that was not in use before,
  the object behind it equals the receiver, and every object in use before is as it was.
\<close>

definition structural_copies :: "'x library_copies \<Rightarrow> bool" where
  "structural_copies lib =
     ((\<forall>a b. ObjectMeta_DeepCopyInto lib a b = a) \<and>
      (\<forall>a b. ListMeta_DeepCopyInto lib a b = a) \<and>
      (\<forall>a b. ResourceSpec_DeepCopyInto lib a b = a) \<and>
      (\<forall>a b. ResourceStatus_DeepCopyInto lib a b = a) \<and>
      (\<forall>t. Time_DeepCopy lib (Some t) = Some t))"

definition new_equal_copy :: "'a store \<Rightarrow> nat \<Rightarrow> nat option \<times> 'a store \<Rightarrow> bool" where
  "new_equal_copy s p r =
     (case r of
        (None, s') \<Rightarrow> False
      | (Some q, s') \<Rightarrow>
          \<not> valid s q \<and> valid s' q \<and> deref s' q = deref s p \<and>
          (\<forall>a. valid s a \<longrightarrow> valid s' a \<and> deref s' a = deref s a))"

section \<open>pkg/clients/spotmarket/fake: MockClient\<close>

text \<open>
  The fields are Go function values and may be nil; calling a nil function value
  panics. Requests, responses and options are pointers to opaque SDK values.
\<close>

record 'x MockClient =
  MockCreate :: "('x option \<Rightarrow> string \<Rightarrow> 'x option \<times> 'x option \<times> error option) option"
  MockDelete :: "(string \<Rightarrow> 'x option \<times> error option) option"
  MockGet :: "(string \<Rightarrow> 'x option \<Rightarrow> 'x option \<times> 'x option \<times> error option) option"
  MockGetProjectID :: "(string \<Rightarrow> string) option"
  MockGetFacilityID :: "(string \<Rightarrow> string) option"

text \<open>
  \<open>Create\<close> passes \<open>createRequest\<close> alone to \<open>MockCreate\<close>, whose declared type takes
  \<open>(createRequest, projectID)\<close>. The call as written is one argument short, so what it
  denotes is \<open>MockCreate\<close> applied to the request and still waiting for a project id.
\<close>

definition MockClient_Create ::
  "'x MockClient \<Rightarrow> 'x option
     \<Rightarrow> (string \<Rightarrow> 'x option \<times> 'x option \<times> error option) outcome" where
  "MockClient_Create c createRequest =
     (case MockCreate c of
        None \<Rightarrow> Panic
      | Some f \<Rightarrow> Return (f createRequest))"

definition MockClient_Delete ::
  "'x MockClient \<Rightarrow> string \<Rightarrow> ('x option \<times> error option) outcome" where
  "MockClient_Delete c requestID =
     (case MockDelete c of
        None \<Rightarrow> Panic
      | Some f \<Rightarrow> Return (f requestID))"

definition MockClient_Get ::
  "'x MockClient \<Rightarrow> string \<Rightarrow> 'x option
     \<Rightarrow> ('x option \<times> 'x option \<times> error option) outcome" where
  "MockClient_Get c requestID options =
     (case MockGet c of
        None \<Rightarrow> Panic
      | Some f \<Rightarrow> Return (f requestID options))"

definition MockClient_GetFacilityID :: "'x MockClient \<Rightarrow> string \<Rightarrow> string outcome" where
  "MockClient_GetFacilityID c ident =
     (case MockGetFacilityID c of
        None \<Rightarrow> Panic
      | Some f \<Rightarrow> Return (f ident))"

definition MockClient_GetProjectID :: "'x MockClient \<Rightarrow> string \<Rightarrow> string outcome" where
  "MockClient_GetProjectID c ident =
     (case MockGetProjectID c of
        None \<Rightarrow> Panic
      | Some f \<Rightarrow> Return (f ident))"

section \<open>pkg/controller/server/device: the Device controller\<close>

subsection \<open>Error strings\<close>

definition errManagedUpdateFailed :: string where
  "errManagedUpdateFailed = ''cannot update Device custom resource''"

definition errTrackPCUsage :: string where
  "errTrackPCUsage = ''cannot track ProviderConfig usage''"

definition errGetProviderConfigSecret :: string where
  "errGetProviderConfigSecret = ''cannot get ProviderConfig Secret''"

definition errGenObservation :: string where
  "errGenObservation = ''cannot generate observation''"

definition errNewClient :: string where
  "errNewClient = ''cannot create new Device client''"

definition errNotDevice :: string where
  "errNotDevice = ''managed resource is not a Device''"

definition errGetDevice :: string where
  "errGetDevice = ''cannot get Device''"

definition errCreateDevice :: string where
  "errCreateDevice = ''cannot create Device''"

definition errUpdateDevice :: string where
  "errUpdateDevice = ''cannot modify Device''"

definition errDeleteDevice :: string where
  "errDeleteDevice = ''cannot delete Device''"

definition userdataMapKey :: string where
  "userdataMapKey = ''cloud-init''"

text \<open>The strings local to \<open>resolveUserDataRefs\<close>.\<close>

definition errGetUserDataRef :: string where
  "errGetUserDataRef = ''cannot get required resource for UserDataRef''"

definition errInvalidRefKind :: string where
  "errInvalidRefKind = ''invalid resource kind''"

text \<open>
  \<open>errRefKeyNotFoundFmt\<close> is \<open>"could not find UserDataRef key %q"\<close>; formatting it
  puts the quoted key after the fixed text. The quoting of \<open>%q\<close> (Go's
  \<open>strconv.Quote\<close>) is a parameter.
\<close>

definition Sprintf_errRefKeyNotFoundFmt :: "(string \<Rightarrow> string) \<Rightarrow> string \<Rightarrow> string" where
  "Sprintf_errRefKeyNotFoundFmt quote key = ''could not find UserDataRef key '' @ quote key"

subsection \<open>apis/server/v1alpha2 and the SDK: the data the controller touches\<close>

text \<open>
  The declarations of \<open>v1alpha2.Device\<close> and \<open>packngo.Device\<close> are not among the
  sources. The records have the fields the controller reads or writes, and one opaque
  field for the rest. \<open>ExternalName\<close> is the external-name annotation that
  \<open>meta.GetExternalName\<close> reads and \<open>meta.SetExternalName\<close> writes (the empty string
  when absent). \<open>ConditionedStatus\<close> is what \<open>SetConditions\<close> works on.
\<close>

record UserDataReference =
  Name :: string
  Namespace :: string
  Key :: string
  Kind :: string
  Optional :: bool

record 'x DeviceParameters =
  UserData :: "string option"
  UserDataRef :: "UserDataReference option"
  NetworkType :: "string option"
  DeviceParametersOther :: 'x

record 'x DeviceObservation =
  ID :: string
  State :: string
  DeviceObservationOther :: 'x

record 'x DeviceSpec =
  ResourceSpec :: 'x
  ForProvider :: "'x DeviceParameters"

record 'x DeviceStatus =
  ConditionedStatus :: 'x
  AtProvider :: "'x DeviceObservation"

record 'x Device =
  ExternalName :: string
  ObjectMetaOther :: 'x
  Spec :: "'x DeviceSpec"
  Status :: "'x DeviceStatus"

record 'x packngo_Device =
  packngo_ID :: string
  packngo_Other :: 'x

text \<open>
  The conditions the controller sets, named by the function of xpv1 that builds each
  (the time stamp a condition carries is left out).
\<close>

datatype condition = Available | Creating | Unavailable | Deleting

text \<open>\<open>resource.Managed\<close>: a pointer to a Device, or some other managed resource.\<close>

datatype managed = DevicePtr nat | NotADevice

record 'x ExternalObservation =
  ResourceExists :: bool
  ResourceUpToDate :: bool
  ConnectionDetails :: "'x option"

record 'x ExternalCreation =
  Creation_ConnectionDetails :: "'x option"

definition ExternalObservation_zero :: "'x ExternalObservation" where
  "ExternalObservation_zero =
     \<lparr>ResourceExists = False, ResourceUpToDate = False, ConnectionDetails = None\<rparr>"

definition ExternalCreation_zero :: "'x ExternalCreation" where
  "ExternalCreation_zero = \<lparr>Creation_ConnectionDetails = None\<rparr>"

subsection \<open>The clients\<close>

text \<open>
  The provider client (\<open>devicesclient.ClientWithDefaults\<close>) and the Kubernetes client
  are interfaces: records of functions, each giving the results of the call. The
  response value the controller discards (\<open>_\<close>) is left out. \<open>kube_Get_ConfigMap\<close> and
  \<open>kube_Get_Secret\<close> take \<open>(Namespace, Name)\<close> and give the error and the \<open>Data\<close> map
  of the object after the call; \<open>kube_Update\<close> gives the error and the object as the
  call leaves it (the client writes the server's answer back into it).
\<close>

record 'x device_client =
  client_Get :: "string \<Rightarrow> 'x option \<Rightarrow> 'x packngo_Device option \<times> error option"
  client_Create :: "'x \<Rightarrow> 'x packngo_Device option \<times> error option"
  client_Update :: "string \<Rightarrow> 'x \<Rightarrow> error option"
  client_Delete :: "string \<Rightarrow> bool \<Rightarrow> error option"
  client_DeviceToNetworkType :: "string \<Rightarrow> string \<Rightarrow> error option"
  client_GetProjectID :: "string \<Rightarrow> string"

record 'x kube_client =
  kube_Get_ConfigMap :: "string \<times> string \<Rightarrow> error option \<times> (string \<rightharpoonup> string)"
  kube_Get_Secret :: "string \<times> string \<Rightarrow> error option \<times> (string \<rightharpoonup> string)"
  kube_Update :: "'x Device \<Rightarrow> error option \<times> 'x Device"

record 'x external =
  kube :: "'x kube_client"
  client :: "'x device_client"

record 'x connecter =
  connecter_kube :: "'x kube_client"
  usage_Track :: "managed \<Rightarrow> error option"
  newClientFn :: "('x option \<Rightarrow> 'x device_client \<times> error option) option"

text \<open>
  The functions and constants of the other packages the controller calls
  (\<open>pkg/clients\<close>, \<open>pkg/clients/device\<close>, \<open>apis/server/v1alpha2\<close>, crossplane-runtime and
  the standard library) are parameters as well.
\<close>

record 'x packages =
  IsNotFound :: "error option \<Rightarrow> bool"
  LateInitialize :: "'x DeviceParameters \<Rightarrow> 'x packngo_Device option \<Rightarrow> 'x DeviceParameters"
  GenerateObservation :: "'x packngo_Device option \<Rightarrow> 'x DeviceObservation \<times> error option"
  IsUpToDate :: "'x Device \<Rightarrow> 'x packngo_Device option \<Rightarrow> bool \<times> bool"
  GetConnectionDetails :: "'x packngo_Device option \<Rightarrow> 'x option"
  CreateFromDevice :: "'x Device \<Rightarrow> string \<Rightarrow> 'x"
  NewUpdateDeviceRequest :: "'x Device \<Rightarrow> 'x"
  NewClient :: "'x option \<Rightarrow> 'x device_client \<times> error option"
  GetAuthInfo :: "'x kube_client \<Rightarrow> managed \<Rightarrow> 'x option \<times> error option"
  CredentialProjectID :: string
  SetConditions :: "'x \<Rightarrow> condition \<Rightarrow> 'x"
  Quote :: "string \<Rightarrow> string"
  StateActive :: string
  StateProvisioning :: string
  StateQueued :: string
  StateDeprovisioning :: string
  StateFailed :: string
  StateInactive :: string
  StatePoweringOff :: string
  StateReinstalling :: string

text \<open>The calls made on the two clients, in order, are what each method returns last.\<close>

datatype 'x call =
    Call_client_Get string
  | Call_client_Create 'x
  | Call_client_Update string 'x
  | Call_client_Delete string bool
  | Call_client_DeviceToNetworkType string string
  | Call_client_GetProjectID string
  | Call_kube_Get_ConfigMap "string \<times> string"
  | Call_kube_Get_Secret "string \<times> string"
  | Call_kube_Update "'x Device"

subsection \<open>Writes to a Device\<close>

definition Status_SetConditions :: "'x packages \<Rightarrow> 'x Device \<Rightarrow> condition \<Rightarrow> 'x Device" where
  "Status_SetConditions pk d c =
     d\<lparr>Status := (Status d)\<lparr>ConditionedStatus :=
          SetConditions pk (ConditionedStatus (Status d)) c\<rparr>\<rparr>"

definition set_ForProvider :: "'x Device \<Rightarrow> 'x DeviceParameters \<Rightarrow> 'x Device" where
  "set_ForProvider d p = d\<lparr>Spec := (Spec d)\<lparr>ForProvider := p\<rparr>\<rparr>"

definition set_AtProvider :: "'x Device \<Rightarrow> 'x DeviceObservation \<Rightarrow> 'x Device" where
  "set_AtProvider d ob = d\<lparr>Status := (Status d)\<lparr>AtProvider := ob\<rparr>\<rparr>"

definition SetExternalName :: "'x Device \<Rightarrow> string \<Rightarrow> 'x Device" where
  "SetExternalName d name = d\<lparr>ExternalName := name\<rparr>"

text \<open>
  Modelled from the spec: the generated \<open>DeepCopy\<close> of \<open>v1alpha2.Device\<close> is not among the
  sources. As the generated deep copies of the vlan package do, it allocates a new
  object and copies the receiver into it.
\<close>

definition Device_DeepCopy :: "'x Device store \<Rightarrow> nat \<Rightarrow> nat \<times> 'x Device store" where
  "Device_DeepCopy s d =
     (let (out, s) = new s;
          s = assign s out (deref s d)
      in (out, s))"

subsection \<open>The methods of managed.go\<close>

text \<open>
  Each method gives its Go results, then the store of Devices as it leaves it, then the
  calls it made on the clients. \<open>Connect\<close> touches no Device.
\<close>

definition Connect ::
  "'x packages \<Rightarrow> 'x connecter \<Rightarrow> managed \<Rightarrow> 'x external option \<times> error option" where
  "Connect pk c mg =
     (case mg of
        NotADevice \<Rightarrow> (None, Some (errors_New errNotDevice))
      | DevicePtr d \<Rightarrow>
          let err = usage_Track c mg in
          if err \<noteq> None then (None, errors_Wrap err errTrackPCUsage)
          else
            let newClient = (case newClientFn c of None \<Rightarrow> NewClient pk | Some f \<Rightarrow> f);
                (cfg, err) = GetAuthInfo pk (connecter_kube c) mg
            in if err \<noteq> None then (None, errors_Wrap err errGetProviderConfigSecret)
               else
                 let (cl, err) = newClient cfg
                 in (Some \<lparr>kube = connecter_kube c, client = cl\<rparr>, errors_Wrap err errNewClient))"

definition Observe ::
  "'x packages \<Rightarrow> 'x external \<Rightarrow> 'x Device store \<Rightarrow> managed
     \<Rightarrow> ('x ExternalObservation \<times> error option) \<times> 'x Device store \<times> 'x call list" where
  "Observe pk e s mg =
     (case mg of
        NotADevice \<Rightarrow> ((ExternalObservation_zero, Some (errors_New errNotDevice)), s, [])
      | DevicePtr d \<Rightarrow>
          let name = ExternalName (deref s d);
              (device, err) = client_Get (client e) name None;
              tr = [Call_client_Get name]
          in if IsNotFound pk err
             then ((ExternalObservation_zero\<lparr>ResourceExists := False\<rparr>, None), s, tr)
             else if err \<noteq> None
             then ((ExternalObservation_zero, errors_Wrap err errGetDevice), s, tr)
             else
               let current = ForProvider (Spec (deref s d));
                   s = assign s d (set_ForProvider (deref s d)
                         (LateInitialize pk (ForProvider (Spec (deref s d))) device));
                   (err, s, tr) =
                     (if current \<noteq> ForProvider (Spec (deref s d))
                      then let (err, written) = kube_Update (kube e) (deref s d)
                           in (err, assign s d written, tr @ [Call_kube_Update (deref s d)])
                      else (None, s, tr))
               in if err \<noteq> None
                  then ((ExternalObservation_zero, errors_Wrap err errManagedUpdateFailed), s, tr)
                  else
                    let (ob, err) = GenerateObservation pk device;
                        s = assign s d (set_AtProvider (deref s d) ob)
                    in if err \<noteq> None
                       then ((ExternalObservation_zero, errors_Wrap err errGenObservation), s, tr)
                       else
                         let st = State (AtProvider (Status (deref s d)));
                             s = (if st = StateActive pk
                                  then assign s d (Status_SetConditions pk (deref s d) Available)
                                  else if st = StateProvisioning pk
                                  then assign s d (Status_SetConditions pk (deref s d) Creating)
                                  else if st = StateQueued pk \<or> st = StateDeprovisioning pk \<or>
                                          st = StateFailed pk \<or> st = StateInactive pk \<or>
                                          st = StatePoweringOff pk \<or> st = StateReinstalling pk
                                  then assign s d (Status_SetConditions pk (deref s d) Unavailable)
                                  else s);
                             (upToDate, networkTypeUpToDate) = IsUpToDate pk (deref s d) device;
                             ob = \<lparr>ResourceExists = True,
                                   ResourceUpToDate = (upToDate \<and> networkTypeUpToDate),
                                   ConnectionDetails = GetConnectionDetails pk device\<rparr>
                         in ((ob, None), s, tr))"

text \<open>
  \<open>resolveUserDataRefs\<close> dereferences \<open>d.Spec.ForProvider.UserDataRef\<close> without a check:
  on nil it panics. The switch either returns or leaves \<open>(userdata, ok)\<close> for the check
  after it. A byte slice read from a Secret and the string made of it are the same
  characters.
\<close>

definition resolveUserDataRefs ::
  "'x packages \<Rightarrow> 'x external \<Rightarrow> 'x Device store \<Rightarrow> nat
     \<Rightarrow> (string \<times> error option) outcome \<times> 'x call list" where
  "resolveUserDataRefs pk e s d =
     (case UserDataRef (ForProvider (Spec (deref s d))) of
        None \<Rightarrow> (Panic, [])
      | Some ref \<Rightarrow>
          let nsn = (Namespace ref, Name ref);
              key = (if Key ref = [] then userdataMapKey else Key ref);
              (switch, tr) =
                (if Kind ref = ''ConfigMap''
                 then let (err, data) = kube_Get_ConfigMap (kube e) nsn
                      in (if err \<noteq> None \<and> \<not> Optional ref
                          then Inl ([], errors_Wrap err errGetUserDataRef)
                          else Inr (case data key of None \<Rightarrow> ([], False) | Some v \<Rightarrow> (v, True)),
                          [Call_kube_Get_ConfigMap nsn])
                 else if Kind ref = ''Secret''
                 then let (err, data) = kube_Get_Secret (kube e) nsn
                      in (if err \<noteq> None \<and> \<not> Optional ref
                          then Inl ([], errors_Wrap err errGetUserDataRef)
                          else Inr (case data key of None \<Rightarrow> ([], False) | Some v \<Rightarrow> (v, True)),
                          [Call_kube_Get_Secret nsn])
                 else (Inl ([], errors_Wrap (Some (errors_New errGetUserDataRef)) errInvalidRefKind),
                       []))
          in case switch of
               Inl returned \<Rightarrow> (Return returned, tr)
             | Inr (userdata, ok) \<Rightarrow>
                 if \<not> ok \<and> \<not> Optional ref
                 then (Return ([], errors_Wrap (Some (fmt_Errorf errGetUserDataRef))
                                 (Sprintf_errRefKeyNotFoundFmt (Quote pk) key)), tr)
                 else (Return (userdata, None), tr))"

text \<open>
  \<open>Create\<close>. \<open>device.ID\<close> dereferences the pointer \<open>client.Create\<close> returned: a nil
  device with a nil error panics.
\<close>

definition Create ::
  "'x packages \<Rightarrow> 'x external \<Rightarrow> 'x Device store \<Rightarrow> managed
     \<Rightarrow> ('x ExternalCreation \<times> error option) outcome \<times> 'x Device store \<times> 'x call list" where
  "Create pk e s mg =
     (case mg of
        NotADevice \<Rightarrow> (Return (ExternalCreation_zero, Some (errors_New errNotDevice)), s, [])
      | DevicePtr d \<Rightarrow>
          let s = assign s d (Status_SetConditions pk (deref s d) Creating);
              (createDev, s) = Device_DeepCopy s d;
              (resolved, tr) =
                (if UserDataRef (ForProvider (Spec (deref s d))) \<noteq> None
                 then resolveUserDataRefs pk e s d
                 else (Return ([], None), []))
          in case resolved of
               Panic \<Rightarrow> (Panic, s, tr)
             | Return (userdata, err) \<Rightarrow>
                 if err \<noteq> None then (Return (ExternalCreation_zero, err), s, tr)
                 else
                   let s = (if UserDataRef (ForProvider (Spec (deref s d))) \<noteq> None
                            then assign s createDev (set_ForProvider (deref s createDev)
                                   ((ForProvider (Spec (deref s createDev)))
                                      \<lparr>UserData := Some userdata\<rparr>))
                            else s);
                       projectID = client_GetProjectID (client e) (CredentialProjectID pk);
                       create = CreateFromDevice pk (deref s createDev) projectID;
                       (device, err) = client_Create (client e) create;
                       tr = tr @ [Call_client_GetProjectID (CredentialProjectID pk),
                                  Call_client_Create create]
                   in if err \<noteq> None
                      then (Return (ExternalCreation_zero, errors_Wrap err errCreateDevice), s, tr)
                      else
                        case device of
                          None \<Rightarrow> (Panic, s, tr)
                        | Some dev \<Rightarrow>
                            let s = assign s d (set_AtProvider (deref s d)
                                      ((AtProvider (Status (deref s d)))\<lparr>ID := packngo_ID dev\<rparr>));
                                s = assign s d (SetExternalName (deref s d) (packngo_ID dev));
                                (err, written) = kube_Update (kube e) (deref s d);
                                tr = tr @ [Call_kube_Update (deref s d)];
                                s = assign s d written
                            in if err \<noteq> None
                               then (Return (ExternalCreation_zero,
                                       errors_Wrap err errManagedUpdateFailed), s, tr)
                               else (Return (\<lparr>Creation_ConnectionDetails =
                                                GetConnectionDetails pk device\<rparr>, None), s, tr))"

definition Update ::
  "'x packages \<Rightarrow> 'x external \<Rightarrow> 'x Device store \<Rightarrow> managed
     \<Rightarrow> error option \<times> 'x Device store \<times> 'x call list" where
  "Update pk e s mg =
     (case mg of
        NotADevice \<Rightarrow> (Some (errors_New errNotDevice), s, [])
      | DevicePtr d \<Rightarrow>
          let name = ExternalName (deref s d);
              (device, err) = client_Get (client e) name None;
              tr = [Call_client_Get name]
          in if err \<noteq> None then (errors_Wrap err errGetDevice, s, tr)
             else
               let (u, n) = IsUpToDate pk (deref s d) device
               in if \<not> n \<and> NetworkType (ForProvider (Spec (deref s d))) \<noteq> None
                  then
                    let networkType = the (NetworkType (ForProvider (Spec (deref s d))));
                        err = client_DeviceToNetworkType (client e) name networkType
                    in (errors_Wrap err errUpdateDevice, s,
                        tr @ [Call_client_DeviceToNetworkType name networkType])
                  else
                    let request = NewUpdateDeviceRequest pk (deref s d);
                        err = client_Update (client e) name request
                    in (errors_Wrap err errUpdateDevice, s,
                        tr @ [Call_client_Update name request]))"

definition Delete ::
  "'x packages \<Rightarrow> 'x external \<Rightarrow> 'x Device store \<Rightarrow> managed
     \<Rightarrow> error option \<times> 'x Device store \<times> 'x call list" where
  "Delete pk e s mg =
     (case mg of
        NotADevice \<Rightarrow> (Some (errors_New errNotDevice), s, [])
      | DevicePtr d \<Rightarrow>
          let s = assign s d (Status_SetConditions pk (deref s d) Deleting);
              name = ExternalName (deref s d);
              err = client_Delete (client e) name False
          in (errors_Wrap (Ignore (IsNotFound pk) err) errDeleteDevice, s,
              [Call_client_Delete name False]))"

section \<open>Notions the properties are stated with\<close>

text \<open>The string constants declared at package level in managed.go for wrapping errors.\<close>

definition package_error_strings :: "string list" where
  "package_error_strings =
     [errManagedUpdateFailed, errTrackPCUsage, errGetProviderConfigSecret, errGenObservation,
      errNewClient, errNotDevice, errGetDevice, errCreateDevice, errUpdateDevice,
      errDeleteDevice]"

text \<open>
  The errors the calls of \<open>Observe\<close>, \<open>Create\<close>, \<open>Update\<close> and \<open>Delete\<close> can return
  (the provider client, the update of the custom resource, the generation of the
  observation), and those the calls of \<open>Connect\<close> can return.
\<close>

definition client_errors :: "'x packages \<Rightarrow> 'x external \<Rightarrow> error set" where
  "client_errors pk e =
     {u. (\<exists>name opts. snd (client_Get (client e) name opts) = Some u) \<or>
         (\<exists>request. snd (client_Create (client e) request) = Some u) \<or>
         (\<exists>name request. client_Update (client e) name request = Some u) \<or>
         (\<exists>name force. client_Delete (client e) name force = Some u) \<or>
         (\<exists>name networkType. client_DeviceToNetworkType (client e) name networkType = Some u) \<or>
         (\<exists>obj. fst (kube_Update (kube e) obj) = Some u) \<or>
         (\<exists>device. snd (GenerateObservation pk device) = Some u)}"

definition connect_errors :: "'x packages \<Rightarrow> 'x connecter \<Rightarrow> error set" where
  "connect_errors pk c =
     {u. (\<exists>mg. usage_Track c mg = Some u) \<or>
         (\<exists>k mg. snd (GetAuthInfo pk k mg) = Some u) \<or>
         (\<exists>cfg. snd (NewClient pk cfg) = Some u) \<or>
         (\<exists>f cfg. newClientFn c = Some f \<and> snd (f cfg) = Some u)}"

text \<open>
  An error wraps an underlying error statically when it is \<open>errors.Wrap\<close> of one of the
  given errors with one of the package's constants.
\<close>

definition wraps_underlying :: "error set \<Rightarrow> error \<Rightarrow> bool" where
  "wraps_underlying U err =
     (\<exists>u c. err = withMessage u c \<and> u \<in> U \<and> c \<in> set package_error_strings)"

text \<open>
  The three errors \<open>resolveUserDataRefs\<close> builds with its own strings: the Kubernetes
  client's error under \<open>errGetUserDataRef\<close>, a new error under \<open>errInvalidRefKind\<close>, and
  a new error under the message formatted from the key.
\<close>

definition resolve_error :: "'x packages \<Rightarrow> 'x external \<Rightarrow> error \<Rightarrow> bool" where
  "resolve_error pk e err =
     ((\<exists>u nsn. (fst (kube_Get_ConfigMap (kube e) nsn) = Some u \<or>
                fst (kube_Get_Secret (kube e) nsn) = Some u) \<and>
               err = withMessage u errGetUserDataRef) \<or>
      err = withMessage (errors_New errGetUserDataRef) errInvalidRefKind \<or>
      (\<exists>key. err = withMessage (fmt_Errorf errGetUserDataRef)
                      (Sprintf_errRefKeyNotFoundFmt (Quote pk) key)))"

text \<open>The eight state constants of v1alpha2 are pairwise different strings.\<close>

definition states_distinct :: "'x packages \<Rightarrow> bool" where
  "states_distinct pk =
     distinct [StateActive pk, StateProvisioning pk, StateQueued pk, StateDeprovisioning pk,
               StateFailed pk, StateInactive pk, StatePoweringOff pk, StateReinstalling pk]"

section \<open>A concrete setting\<close>

text \<open>
  Clients, package functions and objects over strings as the opaque values, on which
  the theorems below are run.
\<close>

definition quote0 :: "string \<Rightarrow> string" where
  "quote0 s = CHR 0x22 # s @ [CHR 0x22]"

definition client0 :: "string device_client" where
  "client0 =
     \<lparr>client_Get = (\<lambda>name opts. (Some \<lparr>packngo_ID = name, packngo_Other = ''active''\<rparr>, None)),
      client_Create = (\<lambda>request. (Some \<lparr>packngo_ID = ''device-1'', packngo_Other = ''queued''\<rparr>, None)),
      client_Update = (\<lambda>name request. None),
      client_Delete = (\<lambda>name force. None),
      client_DeviceToNetworkType = (\<lambda>name networkType. None),
      client_GetProjectID = (\<lambda>k. ''project-1'')\<rparr>"

definition kube0 :: "string kube_client" where
  "kube0 =
     \<lparr>kube_Get_ConfigMap = (\<lambda>nsn. (None, [''cloud-init'' \<mapsto> ''#cloud-config''])),
      kube_Get_Secret = (\<lambda>nsn. (Some (errors_New ''secrets not found''), Map.empty)),
      kube_Update = (\<lambda>obj. (None, obj))\<rparr>"

definition external0 :: "string external" where
  "external0 = \<lparr>kube = kube0, client = client0\<rparr>"

text \<open>The same clients, with a provider that reports the device in the given state.\<close>

definition reporting :: "string \<Rightarrow> string external" where
  "reporting st =
     external0\<lparr>client := client0\<lparr>client_Get :=
       (\<lambda>name opts. (Some \<lparr>packngo_ID = name, packngo_Other = st\<rparr>, None))\<rparr>\<rparr>"

definition condition_name :: "condition \<Rightarrow> string" where
  "condition_name c =
     (case c of Available \<Rightarrow> ''Available'' | Creating \<Rightarrow> ''Creating''
      | Unavailable \<Rightarrow> ''Unavailable'' | Deleting \<Rightarrow> ''Deleting'')"

definition packages0 :: "string packages" where
  "packages0 =
     \<lparr>IsNotFound = (\<lambda>err. err = Some (errors_New ''not found'')),
      LateInitialize = (\<lambda>p device. p),
      GenerateObservation = (\<lambda>device.
        case device of
          None \<Rightarrow> (\<lparr>ID = [], State = [], DeviceObservationOther = []\<rparr>,
                    Some (errors_New ''no device''))
        | Some dv \<Rightarrow> (\<lparr>ID = packngo_ID dv, State = packngo_Other dv,
                        DeviceObservationOther = []\<rparr>, None)),
      IsUpToDate = (\<lambda>d device. (True, NetworkType (ForProvider (Spec d)) = None)),
      GetConnectionDetails = (\<lambda>device. None),
      CreateFromDevice = (\<lambda>d projectID.
        projectID @ '':'' @ (case UserData (ForProvider (Spec d)) of None \<Rightarrow> [] | Some u \<Rightarrow> u)),
      NewUpdateDeviceRequest = (\<lambda>d. ''update''),
      NewClient = (\<lambda>cfg. (client0, None)),
      GetAuthInfo = (\<lambda>k mg. (Some ''token'', None)),
      CredentialProjectID = ''projectID'',
      SetConditions = (\<lambda>cs c. condition_name c),
      Quote = quote0,
      StateActive = ''active'',
      StateProvisioning = ''provisioning'',
      StateQueued = ''queued'',
      StateDeprovisioning = ''deprovisioning'',
      StateFailed = ''failed'',
      StateInactive = ''inactive'',
      StatePoweringOff = ''powering_off'',
      StateReinstalling = ''reinstalling''\<rparr>"

definition parameters0 :: "string DeviceParameters" where
  "parameters0 =
     \<lparr>UserData = None, UserDataRef = None, NetworkType = None, DeviceParametersOther = []\<rparr>"

definition device0 :: "string Device" where
  "device0 =
     \<lparr>ExternalName = ''device-1'', ObjectMetaOther = [],
      Spec = \<lparr>ResourceSpec = [], ForProvider = parameters0\<rparr>,
      Status = \<lparr>ConditionedStatus = [],
                AtProvider = \<lparr>ID = [], State = [], DeviceObservationOther = []\<rparr>\<rparr>\<rparr>"

definition with_parameters :: "string DeviceParameters \<Rightarrow> string Device store" where
  "with_parameters p = \<lparr>cells = (\<lambda>a. set_ForProvider device0 p), allocated = 1\<rparr>"

text \<open>Two Devices in use: the one with the given parameters at 0, a plain one at 1.\<close>

definition two_devices :: "string DeviceParameters \<Rightarrow> string Device store" where
  "two_devices p =
     \<lparr>cells = (\<lambda>a. if a = 0 then set_ForProvider device0 p else device0), allocated = 2\<rparr>"

definition reference0 :: UserDataReference where
  "reference0 =
     \<lparr>Name = ''userdata'', Namespace = ''default'', Key = [], Kind = ''ConfigMap'',
      Optional = False\<rparr>"

definition connecter0 :: "string connecter" where
  "connecter0 = \<lparr>connecter_kube = kube0, usage_Track = (\<lambda>mg. None), newClientFn = None\<rparr>"

definition library0 :: "string library_copies" where
  "library0 =
     \<lparr>ObjectMeta_DeepCopyInto = (\<lambda>a b. a),
      ListMeta_DeepCopyInto = (\<lambda>a b. a),
      ResourceSpec_DeepCopyInto = (\<lambda>a b. a),
      ResourceStatus_DeepCopyInto = (\<lambda>a b. a),
      Time_DeepCopy = (\<lambda>t. t)\<rparr>"

definition network0 :: "string VirtualNetwork" where
  "network0 =
     \<lparr>VN_TypeMeta = ''VirtualNetwork'', VN_ObjectMeta = ''vlan-1'',
      VN_Spec = \<lparr>VN_ResourceSpec = ''default'',
                 VN_ForProvider = \<lparr>Description = Some ''storage'', ParametersOther = ''ewr1''\<rparr>\<rparr>,
      VN_Status = \<lparr>VN_ResourceStatus = ''Ready'',
                   VN_AtProvider = \<lparr>CreatedAt = Some ''2020-01-01'',
                                    ObservationOther = ''1001''\<rparr>\<rparr>\<rparr>"

definition one_object :: "'a \<Rightarrow> 'a store" where
  "one_object v = \<lparr>cells = (\<lambda>a. v), allocated = 1\<rparr>"

definition mock0 :: "string MockClient" where
  "mock0 =
     \<lparr>MockCreate = Some (\<lambda>request projectID. (Some projectID, None, None)),
      MockDelete = Some (\<lambda>requestID. (None, None)),
      MockGet = Some (\<lambda>requestID options. (Some requestID, None, None)),
      MockGetProjectID = Some (\<lambda>ident. ident),
      MockGetFacilityID = Some (\<lambda>ident. ident)\<rparr>"

section \<open>Properties\<close>

subsection \<open>The deep copies of the vlan package\<close>

lemma VirtualNetworkParameters_DeepCopyInto_eq:
  "VirtualNetworkParameters_DeepCopyInto v = v"
  by (simp add: VirtualNetworkParameters_DeepCopyInto_def split: option.splits)

lemma VirtualNetworkObservation_DeepCopyInto_eq:
  "structural_copies lib \<Longrightarrow> VirtualNetworkObservation_DeepCopyInto lib v = v"
  by (simp add: VirtualNetworkObservation_DeepCopyInto_def structural_copies_def
      split: option.splits)

lemma VirtualNetworkSpec_DeepCopyInto_eq:
  "structural_copies lib \<Longrightarrow> VirtualNetworkSpec_DeepCopyInto lib v = v"
  by (simp add: VirtualNetworkSpec_DeepCopyInto_def structural_copies_def
      VirtualNetworkParameters_DeepCopyInto_eq)

lemma VirtualNetworkStatus_DeepCopyInto_eq:
  "structural_copies lib \<Longrightarrow> VirtualNetworkStatus_DeepCopyInto lib v = v"
  by (simp add: VirtualNetworkStatus_DeepCopyInto_def VirtualNetworkObservation_DeepCopyInto_eq)
    (simp add: structural_copies_def)

lemma VirtualNetwork_DeepCopyInto_eq:
  "structural_copies lib \<Longrightarrow> VirtualNetwork_DeepCopyInto lib v = v"
  by (simp add: VirtualNetwork_DeepCopyInto_def VirtualNetworkSpec_DeepCopyInto_eq
      VirtualNetworkStatus_DeepCopyInto_eq)
    (simp add: structural_copies_def)

lemma Items_DeepCopyInto_eq:
  "structural_copies lib \<Longrightarrow> Items_DeepCopyInto lib vs = vs"
  by (induction vs) (simp_all add: VirtualNetwork_DeepCopyInto_eq)

lemma VirtualNetworkList_DeepCopyInto_eq:
  assumes "structural_copies lib"
  shows "VirtualNetworkList_DeepCopyInto lib v = v"
proof -
  have "ListMeta_DeepCopyInto lib (VNL_ListMeta v) (VNL_ListMeta v) = VNL_ListMeta v"
    using assms by (simp add: structural_copies_def)
  then show ?thesis
    by (simp add: VirtualNetworkList_DeepCopyInto_def Items_DeepCopyInto_eq [OF assms]
        split: option.splits)
qed

lemma new_assign_copy:
  "valid s p \<Longrightarrow>
   new_equal_copy s p
     (Some (fst (new s)), assign (snd (new s)) (fst (new s)) (deref (snd (new s)) p))"
  by (simp add: new_equal_copy_def new_def assign_def deref_def valid_def)

text \<open>
  Claim C7. For each of \<open>VirtualNetwork\<close>, \<open>VirtualNetworkList\<close>,
  \<open>VirtualNetworkObservation\<close>, \<open>VirtualNetworkParameters\<close>, \<open>VirtualNetworkSpec\<close> and
  \<open>VirtualNetworkStatus\<close>: \<open>DeepCopy\<close> of a nil receiver is nil and changes nothing;
  \<open>DeepCopy\<close> of a pointer in use gives a pointer that was not in use, to an object
  equal to the receiver, and leaves every object in use before as it was. The copies of
  the embedded library types are taken to be structural copies.
\<close>

theorem DeepCopy_new_equal:
  assumes "structural_copies lib"
  shows "VirtualNetwork_DeepCopy lib s1 None = (None, s1) \<and>
         (valid s1 p1 \<longrightarrow> new_equal_copy s1 p1 (VirtualNetwork_DeepCopy lib s1 (Some p1))) \<and>
         VirtualNetworkList_DeepCopy lib s2 None = (None, s2) \<and>
         (valid s2 p2 \<longrightarrow> new_equal_copy s2 p2 (VirtualNetworkList_DeepCopy lib s2 (Some p2))) \<and>
         VirtualNetworkObservation_DeepCopy lib s3 None = (None, s3) \<and>
         (valid s3 p3 \<longrightarrow>
            new_equal_copy s3 p3 (VirtualNetworkObservation_DeepCopy lib s3 (Some p3))) \<and>
         VirtualNetworkParameters_DeepCopy s4 None = (None, s4) \<and>
         (valid s4 p4 \<longrightarrow> new_equal_copy s4 p4 (VirtualNetworkParameters_DeepCopy s4 (Some p4))) \<and>
         VirtualNetworkSpec_DeepCopy lib s5 None = (None, s5) \<and>
         (valid s5 p5 \<longrightarrow> new_equal_copy s5 p5 (VirtualNetworkSpec_DeepCopy lib s5 (Some p5))) \<and>
         VirtualNetworkStatus_DeepCopy lib s6 None = (None, s6) \<and>
         (valid s6 p6 \<longrightarrow> new_equal_copy s6 p6 (VirtualNetworkStatus_DeepCopy lib s6 (Some p6)))"
proof -
  note eqs = VirtualNetwork_DeepCopyInto_eq [OF assms] VirtualNetworkList_DeepCopyInto_eq [OF assms]
    VirtualNetworkObservation_DeepCopyInto_eq [OF assms] VirtualNetworkParameters_DeepCopyInto_eq
    VirtualNetworkSpec_DeepCopyInto_eq [OF assms] VirtualNetworkStatus_DeepCopyInto_eq [OF assms]
  have a: "VirtualNetwork_DeepCopy lib s1 None = (None, s1)"
    by (simp add: VirtualNetwork_DeepCopy_def)
  have b: "valid s1 p1 \<longrightarrow> new_equal_copy s1 p1 (VirtualNetwork_DeepCopy lib s1 (Some p1))"
    using new_assign_copy [of s1 p1]
    by (simp add: VirtualNetwork_DeepCopy_def eqs split_beta Let_def)
  have c: "VirtualNetworkList_DeepCopy lib s2 None = (None, s2)"
    by (simp add: VirtualNetworkList_DeepCopy_def)
  have d: "valid s2 p2 \<longrightarrow> new_equal_copy s2 p2 (VirtualNetworkList_DeepCopy lib s2 (Some p2))"
    using new_assign_copy [of s2 p2]
    by (simp add: VirtualNetworkList_DeepCopy_def eqs split_beta Let_def)
  have e: "VirtualNetworkObservation_DeepCopy lib s3 None = (None, s3)"
    by (simp add: VirtualNetworkObservation_DeepCopy_def)
  have f: "valid s3 p3 \<longrightarrow>
      new_equal_copy s3 p3 (VirtualNetworkObservation_DeepCopy lib s3 (Some p3))"
    using new_assign_copy [of s3 p3]
    by (simp add: VirtualNetworkObservation_DeepCopy_def eqs split_beta Let_def)
  have g: "VirtualNetworkParameters_DeepCopy s4 None = (None, s4)"
    by (simp add: VirtualNetworkParameters_DeepCopy_def)
  have h: "valid s4 p4 \<longrightarrow> new_equal_copy s4 p4 (VirtualNetworkParameters_DeepCopy s4 (Some p4))"
    using new_assign_copy [of s4 p4]
    by (simp add: VirtualNetworkParameters_DeepCopy_def eqs split_beta Let_def)
  have i: "VirtualNetworkSpec_DeepCopy lib s5 None = (None, s5)"
    by (simp add: VirtualNetworkSpec_DeepCopy_def)
  have j: "valid s5 p5 \<longrightarrow> new_equal_copy s5 p5 (VirtualNetworkSpec_DeepCopy lib s5 (Some p5))"
    using new_assign_copy [of s5 p5]
    by (simp add: VirtualNetworkSpec_DeepCopy_def eqs split_beta Let_def)
  have k: "VirtualNetworkStatus_DeepCopy lib s6 None = (None, s6)"
    by (simp add: VirtualNetworkStatus_DeepCopy_def)
  have l: "valid s6 p6 \<longrightarrow> new_equal_copy s6 p6 (VirtualNetworkStatus_DeepCopy lib s6 (Some p6))"
    using new_assign_copy [of s6 p6]
    by (simp add: VirtualNetworkStatus_DeepCopy_def eqs split_beta Let_def)
  from a b c d e f g h i j k l show ?thesis by blast
qed

theorem DeepCopy_new_equal_witness:
  "structural_copies library0 \<and>
   valid (one_object network0) 0 \<and>
   VirtualNetwork_DeepCopy library0 (one_object network0) (Some 0) =
     (Some 1, \<lparr>cells = (\<lambda>a. network0)(1 := network0), allocated = 2\<rparr>) \<and>
   new_equal_copy (one_object network0) 0
     (VirtualNetwork_DeepCopy library0 (one_object network0) (Some 0)) \<and>
   valid (one_object \<lparr>VNL_TypeMeta = ''List'', VNL_ListMeta = ''1'', Items = Some [network0]\<rparr>) 0 \<and>
   new_equal_copy
     (one_object \<lparr>VNL_TypeMeta = ''List'', VNL_ListMeta = ''1'', Items = Some [network0]\<rparr>) 0
     (VirtualNetworkList_DeepCopy library0
        (one_object \<lparr>VNL_TypeMeta = ''List'', VNL_ListMeta = ''1'', Items = Some [network0]\<rparr>)
        (Some 0)) \<and>
   valid (one_object (VN_AtProvider (VN_Status network0))) 0 \<and>
   new_equal_copy (one_object (VN_AtProvider (VN_Status network0))) 0
     (VirtualNetworkObservation_DeepCopy library0
        (one_object (VN_AtProvider (VN_Status network0))) (Some 0)) \<and>
   valid (one_object (VN_ForProvider (VN_Spec network0))) 0 \<and>
   new_equal_copy (one_object (VN_ForProvider (VN_Spec network0))) 0
     (VirtualNetworkParameters_DeepCopy (one_object (VN_ForProvider (VN_Spec network0))) (Some 0)) \<and>
   valid (one_object (VN_Spec network0)) 0 \<and>
   new_equal_copy (one_object (VN_Spec network0)) 0
     (VirtualNetworkSpec_DeepCopy library0 (one_object (VN_Spec network0)) (Some 0)) \<and>
   valid (one_object (VN_Status network0)) 0 \<and>
   new_equal_copy (one_object (VN_Status network0)) 0
     (VirtualNetworkStatus_DeepCopy library0 (one_object (VN_Status network0)) (Some 0))"
proof -
  have sc: "structural_copies library0"
    by (simp add: structural_copies_def library0_def)
  have v: "valid (one_object x) 0" for x :: 'b
    by (simp add: valid_def one_object_def)
  have ev: "VirtualNetwork_DeepCopy library0 (one_object network0) (Some 0) =
      (Some 1, \<lparr>cells = (\<lambda>a. network0)(1 := network0), allocated = 2\<rparr>)"
    by (simp add: VirtualNetwork_DeepCopy_def VirtualNetwork_DeepCopyInto_eq [OF sc]
        new_def assign_def deref_def one_object_def)
  from DeepCopy_new_equal [OF sc, of "one_object network0" 0
      "one_object \<lparr>VNL_TypeMeta = ''List'', VNL_ListMeta = ''1'', Items = Some [network0]\<rparr>" 0
      "one_object (VN_AtProvider (VN_Status network0))" 0
      "one_object (VN_ForProvider (VN_Spec network0))" 0
      "one_object (VN_Spec network0)" 0
      "one_object (VN_Status network0)" 0]
  show ?thesis by (simp add: sc v ev)
qed

subsection \<open>Observe\<close>

lemma deref_assign: "deref (assign s p v) q = (if q = p then v else deref s q)"
  by (simp add: deref_def assign_def)

lemma ExternalName_Status_SetConditions:
  "ExternalName (Status_SetConditions pk dv c) = ExternalName dv"
  by (simp add: Status_SetConditions_def)

lemma Status_set_ForProvider: "Status (set_ForProvider dv p) = Status dv"
  by (simp add: set_ForProvider_def)

lemma ForProvider_set_ForProvider: "ForProvider (Spec (set_ForProvider dv p)) = p"
  by (simp add: set_ForProvider_def)

lemma AtProvider_set_AtProvider: "AtProvider (Status (set_AtProvider dv ob)) = ob"
  by (simp add: set_AtProvider_def)

lemma ConditionedStatus_set_AtProvider:
  "ConditionedStatus (Status (set_AtProvider dv ob)) = ConditionedStatus (Status dv)"
  by (simp add: set_AtProvider_def)

lemma AtProvider_Status_SetConditions:
  "AtProvider (Status (Status_SetConditions pk dv c)) = AtProvider (Status dv)"
  by (simp add: Status_SetConditions_def)

lemma ConditionedStatus_Status_SetConditions:
  "ConditionedStatus (Status (Status_SetConditions pk dv c)) =
     SetConditions pk (ConditionedStatus (Status dv)) c"
  by (simp add: Status_SetConditions_def)

lemma assign_assign: "assign (assign s p v) p w = assign s p w"
  by (simp add: assign_def)

lemma Observe_paths:
  "Observe pk e s (DevicePtr d) =
     (let name = ExternalName (deref s d);
          device = fst (client_Get (client e) name None);
          err = snd (client_Get (client e) name None);
          initialized = set_ForProvider (deref s d)
                          (LateInitialize pk (ForProvider (Spec (deref s d))) device);
          changed = (ForProvider (Spec (deref s d)) \<noteq> ForProvider (Spec initialized));
          uerr = (if changed then fst (kube_Update (kube e) initialized) else None);
          updated = (if changed then snd (kube_Update (kube e) initialized) else initialized);
          tr = (if changed then [Call_client_Get name, Call_kube_Update initialized]
                else [Call_client_Get name]);
          oerr = snd (GenerateObservation pk device);
          observed = set_AtProvider updated (fst (GenerateObservation pk device));
          st = State (fst (GenerateObservation pk device));
          final = (if st = StateActive pk then Status_SetConditions pk observed Available
                   else if st = StateProvisioning pk then Status_SetConditions pk observed Creating
                   else if st = StateQueued pk \<or> st = StateDeprovisioning pk \<or>
                           st = StateFailed pk \<or> st = StateInactive pk \<or>
                           st = StatePoweringOff pk \<or> st = StateReinstalling pk
                   then Status_SetConditions pk observed Unavailable
                   else observed)
      in if IsNotFound pk err
         then ((ExternalObservation_zero, None), s, [Call_client_Get name])
         else if err \<noteq> None
         then ((ExternalObservation_zero, errors_Wrap err errGetDevice), s, [Call_client_Get name])
         else if uerr \<noteq> None
         then ((ExternalObservation_zero, errors_Wrap uerr errManagedUpdateFailed),
               assign s d updated, tr)
         else if oerr \<noteq> None
         then ((ExternalObservation_zero, errors_Wrap oerr errGenObservation),
               assign s d observed, tr)
         else ((\<lparr>ResourceExists = True,
                  ResourceUpToDate = (fst (IsUpToDate pk final device) \<and>
                                      snd (IsUpToDate pk final device)),
                  ConnectionDetails = GetConnectionDetails pk device\<rparr>, None),
               assign s d final, tr))"
  by (simp add: Observe_def Let_def split_beta deref_assign assign_assign
      ExternalObservation_zero_def ForProvider_set_ForProvider AtProvider_set_AtProvider)

lemma errors_Wrap_eq_None [simp]: "errors_Wrap err m = None \<longleftrightarrow> err = None"
  by (cases err) simp_all

lemma Observe_success_path:
  assumes "(if c1 then ((ExternalObservation_zero, None), s1, t1)
            else if u2 \<noteq> None then ((ExternalObservation_zero, errors_Wrap u2 m2), s2, t2)
            else if u3 \<noteq> None then ((ExternalObservation_zero, errors_Wrap u3 m3), s3, t3)
            else if u4 \<noteq> None then ((ExternalObservation_zero, errors_Wrap u4 m4), s4, t4)
            else ((obF, None), s5, t5)) = ((ob, None), s', tr)"
    and "ResourceExists ob"
  shows "\<not> c1 \<and> u2 = None \<and> u3 = None \<and> u4 = None \<and> ob = obF \<and> s' = s5 \<and> tr = t5"
  using assms by (auto simp add: ExternalObservation_zero_def split: if_split_asm)

text \<open>
  Claim C1. When \<open>Observe\<close> has fetched the Device (it returns no error and reports that
  the resource exists), the state in \<open>Status.AtProvider\<close> is the state of the generated
  observation, and the conditions of the Device are what \<open>SetConditions\<close> makes of the
  conditions it had before the switch: with \<open>Available\<close> for \<open>StateActive\<close>, with
  \<open>Creating\<close> for \<open>StateProvisioning\<close>, with \<open>Unavailable\<close> for each of
  \<open>StateQueued\<close>, \<open>StateDeprovisioning\<close>, \<open>StateFailed\<close>, \<open>StateInactive\<close>,
  \<open>StatePoweringOff\<close> and \<open>StateReinstalling\<close>; for any other state they are left as
  they were.
\<close>

theorem Observe_condition_by_state:
  assumes obs: "Observe pk e s (DevicePtr d) = ((ob, None), s', tr)"
    and ex: "ResourceExists ob"
    and dist: "states_distinct pk"
  shows "let device = fst (client_Get (client e) (ExternalName (deref s d)) None);
             initialized = set_ForProvider (deref s d)
                             (LateInitialize pk (ForProvider (Spec (deref s d))) device);
             before = ConditionedStatus (Status
                        (if ForProvider (Spec (deref s d)) \<noteq> ForProvider (Spec initialized)
                         then snd (kube_Update (kube e) initialized) else deref s d));
             st = State (AtProvider (Status (deref s' d)));
             after = ConditionedStatus (Status (deref s' d))
         in st = State (fst (GenerateObservation pk device)) \<and>
            (st = StateActive pk \<longrightarrow> after = SetConditions pk before Available) \<and>
            (st = StateProvisioning pk \<longrightarrow> after = SetConditions pk before Creating) \<and>
            (st \<in> {StateQueued pk, StateDeprovisioning pk, StateFailed pk, StateInactive pk,
                    StatePoweringOff pk, StateReinstalling pk}
               \<longrightarrow> after = SetConditions pk before Unavailable) \<and>
            (st \<notin> {StateActive pk, StateProvisioning pk, StateQueued pk, StateDeprovisioning pk,
                    StateFailed pk, StateInactive pk, StatePoweringOff pk, StateReinstalling pk}
               \<longrightarrow> after = before)"
proof -
  define device where "device = fst (client_Get (client e) (ExternalName (deref s d)) None)"
  define initialized where "initialized = set_ForProvider (deref s d)
      (LateInitialize pk (ForProvider (Spec (deref s d))) device)"
  define updated where "updated =
      (if ForProvider (Spec (deref s d)) \<noteq> ForProvider (Spec initialized)
       then snd (kube_Update (kube e) initialized) else initialized)"
  define observed where "observed = set_AtProvider updated (fst (GenerateObservation pk device))"
  define st where "st = State (fst (GenerateObservation pk device))"
  define final where "final =
      (if st = StateActive pk then Status_SetConditions pk observed Available
       else if st = StateProvisioning pk then Status_SetConditions pk observed Creating
       else if st = StateQueued pk \<or> st = StateDeprovisioning pk \<or>
               st = StateFailed pk \<or> st = StateInactive pk \<or>
               st = StatePoweringOff pk \<or> st = StateReinstalling pk
       then Status_SetConditions pk observed Unavailable
       else observed)"
  note path = Observe_success_path [OF obs [unfolded Observe_paths Let_def] ex]
  have "s' = assign s d final"
    unfolding final_def st_def observed_def updated_def initialized_def device_def
    using path by (elim conjE) assumption
  then have fin: "deref s' d = final"
    by (simp add: deref_assign)
  have st: "State (AtProvider (Status final)) = st"
    by (simp add: final_def observed_def st_def AtProvider_Status_SetConditions
        AtProvider_set_AtProvider)
  have before: "ConditionedStatus (Status observed) =
      ConditionedStatus (Status
        (if ForProvider (Spec (deref s d)) \<noteq> ForProvider (Spec initialized)
         then snd (kube_Update (kube e) initialized) else deref s d))"
    by (simp add: observed_def updated_def ConditionedStatus_set_AtProvider)
      (simp add: initialized_def Status_set_ForProvider)
  have "ConditionedStatus (Status final) =
      (if st = StateActive pk
       then SetConditions pk (ConditionedStatus (Status observed)) Available
       else if st = StateProvisioning pk
       then SetConditions pk (ConditionedStatus (Status observed)) Creating
       else if st = StateQueued pk \<or> st = StateDeprovisioning pk \<or>
               st = StateFailed pk \<or> st = StateInactive pk \<or>
               st = StatePoweringOff pk \<or> st = StateReinstalling pk
       then SetConditions pk (ConditionedStatus (Status observed)) Unavailable
       else ConditionedStatus (Status observed))"
    by (simp add: final_def ConditionedStatus_Status_SetConditions)
  note cs = this
  have neq: "StateProvisioning pk \<noteq> StateActive pk"
    "StateQueued pk \<noteq> StateActive pk" "StateQueued pk \<noteq> StateProvisioning pk"
    "StateDeprovisioning pk \<noteq> StateActive pk" "StateDeprovisioning pk \<noteq> StateProvisioning pk"
    "StateFailed pk \<noteq> StateActive pk" "StateFailed pk \<noteq> StateProvisioning pk"
    "StateInactive pk \<noteq> StateActive pk" "StateInactive pk \<noteq> StateProvisioning pk"
    "StatePoweringOff pk \<noteq> StateActive pk" "StatePoweringOff pk \<noteq> StateProvisioning pk"
    "StateReinstalling pk \<noteq> StateActive pk" "StateReinstalling pk \<noteq> StateProvisioning pk"
    using dist unfolding states_distinct_def by auto
  have c1: "st = StateActive pk \<longrightarrow>
        ConditionedStatus (Status final) =
          SetConditions pk (ConditionedStatus (Status observed)) Available"
    by (simp add: cs)
  have c2: "st = StateProvisioning pk \<longrightarrow>
        ConditionedStatus (Status final) =
          SetConditions pk (ConditionedStatus (Status observed)) Creating"
    by (simp add: cs neq)
  have c3: "st \<in> {StateQueued pk, StateDeprovisioning pk, StateFailed pk, StateInactive pk,
              StatePoweringOff pk, StateReinstalling pk} \<longrightarrow>
        ConditionedStatus (Status final) =
          SetConditions pk (ConditionedStatus (Status observed)) Unavailable"
    using neq by (auto simp add: cs)
  have c4: "st \<notin> {StateActive pk, StateProvisioning pk, StateQueued pk, StateDeprovisioning pk,
              StateFailed pk, StateInactive pk, StatePoweringOff pk, StateReinstalling pk} \<longrightarrow>
        ConditionedStatus (Status final) = ConditionedStatus (Status observed)"
    by (simp add: cs)
  have goal: "st = State (fst (GenerateObservation pk device)) \<and>
      (st = StateActive pk \<longrightarrow>
        ConditionedStatus (Status final) =
          SetConditions pk (ConditionedStatus (Status observed)) Available) \<and>
      (st = StateProvisioning pk \<longrightarrow>
        ConditionedStatus (Status final) =
          SetConditions pk (ConditionedStatus (Status observed)) Creating) \<and>
      (st \<in> {StateQueued pk, StateDeprovisioning pk, StateFailed pk, StateInactive pk,
              StatePoweringOff pk, StateReinstalling pk} \<longrightarrow>
        ConditionedStatus (Status final) =
          SetConditions pk (ConditionedStatus (Status observed)) Unavailable) \<and>
      (st \<notin> {StateActive pk, StateProvisioning pk, StateQueued pk, StateDeprovisioning pk,
              StateFailed pk, StateInactive pk, StatePoweringOff pk, StateReinstalling pk} \<longrightarrow>
        ConditionedStatus (Status final) = ConditionedStatus (Status observed))"
    using c1 c2 c3 c4 st_def by blast
  show ?thesis
    unfolding Let_def fin st before [symmetric] initialized_def [symmetric] device_def [symmetric]
    by (rule goal)
qed

lemmas setting_defs = packages0_def external0_def client0_def kube0_def with_parameters_def
  device0_def parameters0_def reference0_def condition_name_def quote0_def
  deref_def assign_def new_def valid_def
  set_ForProvider_def set_AtProvider_def Status_SetConditions_def SetExternalName_def

lemma Observe0:
  "Observe packages0 external0 (with_parameters parameters0) (DevicePtr 0) =
     ((\<lparr>ResourceExists = True, ResourceUpToDate = True, ConnectionDetails = None\<rparr>, None),
      assign (with_parameters parameters0) 0
        (Status_SetConditions packages0
           (set_AtProvider (set_ForProvider device0 parameters0)
              \<lparr>ID = ''device-1'', State = ''active'', DeviceObservationOther = []\<rparr>) Available),
      [Call_client_Get ''device-1''])"
  by (simp add: Observe_paths Let_def setting_defs)

lemma Observe_reporting:
  "Observe packages0 (reporting st) (with_parameters parameters0) (DevicePtr 0) =
     ((\<lparr>ResourceExists = True, ResourceUpToDate = True, ConnectionDetails = None\<rparr>, None),
      assign (with_parameters parameters0) 0
        (let observed = set_AtProvider (set_ForProvider device0 parameters0)
                          \<lparr>ID = ''device-1'', State = st, DeviceObservationOther = []\<rparr>
         in if st = ''active'' then Status_SetConditions packages0 observed Available
            else if st = ''provisioning'' then Status_SetConditions packages0 observed Creating
            else if st = ''queued'' \<or> st = ''deprovisioning'' \<or> st = ''failed'' \<or>
                    st = ''inactive'' \<or> st = ''powering_off'' \<or> st = ''reinstalling''
            then Status_SetConditions packages0 observed Unavailable
            else observed),
      [Call_client_Get ''device-1''])"
  by (simp add: Observe_paths Let_def reporting_def setting_defs)

theorem Observe_condition_by_state_witness:
  "states_distinct packages0 \<and>
   snd (fst (Observe packages0 (reporting ''active'') (with_parameters parameters0)
     (DevicePtr 0))) = None \<and>
   ResourceExists (fst (fst (Observe packages0 (reporting ''active'')
     (with_parameters parameters0) (DevicePtr 0)))) \<and>
   State (AtProvider (Status (deref (fst (snd (Observe packages0 (reporting ''active'')
     (with_parameters parameters0) (DevicePtr 0)))) 0))) = StateActive packages0 \<and>
   ConditionedStatus (Status (deref (fst (snd (Observe packages0 (reporting ''active'')
     (with_parameters parameters0) (DevicePtr 0)))) 0)) = SetConditions packages0 [] Available \<and>
   State (AtProvider (Status (deref (fst (snd (Observe packages0 (reporting ''provisioning'')
     (with_parameters parameters0) (DevicePtr 0)))) 0))) = StateProvisioning packages0 \<and>
   ConditionedStatus (Status (deref (fst (snd (Observe packages0 (reporting ''provisioning'')
     (with_parameters parameters0) (DevicePtr 0)))) 0)) = SetConditions packages0 [] Creating \<and>
   State (AtProvider (Status (deref (fst (snd (Observe packages0 (reporting ''failed'')
     (with_parameters parameters0) (DevicePtr 0)))) 0))) = StateFailed packages0 \<and>
   ConditionedStatus (Status (deref (fst (snd (Observe packages0 (reporting ''failed'')
     (with_parameters parameters0) (DevicePtr 0)))) 0)) = SetConditions packages0 [] Unavailable \<and>
   State (AtProvider (Status (deref (fst (snd (Observe packages0 (reporting ''rebooting'')
     (with_parameters parameters0) (DevicePtr 0)))) 0))) = ''rebooting'' \<and>
   ConditionedStatus (Status (deref (fst (snd (Observe packages0 (reporting ''rebooting'')
     (with_parameters parameters0) (DevicePtr 0)))) 0)) = []"
proof -
  have d: "states_distinct packages0"
    by (simp add: states_distinct_def packages0_def)
  have ex: "ResourceExists \<lparr>ResourceExists = True, ResourceUpToDate = True,
      ConnectionDetails = (None :: string option)\<rparr>"
    by simp
  have b: "ConditionedStatus (Status (deref (with_parameters parameters0) 0)) = []"
    and n: "ForProvider (Spec (deref (with_parameters parameters0) 0)) = parameters0"
      "LateInitialize packages0 p device = p"
    and g: "State (fst (GenerateObservation packages0
      (fst (client_Get (client (reporting st))
         (ExternalName (deref (with_parameters parameters0) 0)) None)))) = st"
    and c: "StateActive packages0 = ''active''" "StateProvisioning packages0 = ''provisioning''"
      "StateQueued packages0 = ''queued''" "StateDeprovisioning packages0 = ''deprovisioning''"
      "StateFailed packages0 = ''failed''" "StateInactive packages0 = ''inactive''"
      "StatePoweringOff packages0 = ''powering_off''"
      "StateReinstalling packages0 = ''reinstalling''" for p device st
    by (simp_all add: reporting_def setting_defs)
  from Observe_condition_by_state [OF Observe_reporting [of "''active''"] ex d]
    Observe_condition_by_state [OF Observe_reporting [of "''provisioning''"] ex d]
    Observe_condition_by_state [OF Observe_reporting [of "''failed''"] ex d]
    Observe_condition_by_state [OF Observe_reporting [of "''rebooting''"] ex d]
  show ?thesis
    by (simp add: Let_def Observe_reporting d b n g c ForProvider_set_ForProvider)
qed

lemma Observe_result_cases:
  assumes "r =
     (if c1 then ((ExternalObservation_zero, None), s1, t1)
      else if u2 \<noteq> None then ((ExternalObservation_zero, errors_Wrap u2 m2), s2, t2)
      else if u3 \<noteq> None then ((ExternalObservation_zero, errors_Wrap u3 m3), s3, t3)
      else if u4 \<noteq> None then ((ExternalObservation_zero, errors_Wrap u4 m4), s4, t4)
      else ((\<lparr>ResourceExists = True,
               ResourceUpToDate = (fst (IsUpToDate pk F dev) \<and> snd (IsUpToDate pk F dev)),
               ConnectionDetails = cd\<rparr>, None), assign s d F, t5))"
  shows "(c1 \<longrightarrow> \<not> ResourceExists (fst (fst r)) \<and> snd (fst r) = None) \<and>
         (\<not> c1 \<and> u2 = None \<and> u3 = None \<and> u4 = None \<longrightarrow>
            snd (fst r) = None \<and>
            ResourceExists (fst (fst r)) \<and>
            ResourceUpToDate (fst (fst r)) =
              (fst (IsUpToDate pk (deref (fst (snd r)) d) dev) \<and>
               snd (IsUpToDate pk (deref (fst (snd r)) d) dev))) \<and>
         (\<not> c1 \<and> u2 = None \<and> u3 \<noteq> None \<longrightarrow>
            fst r = (ExternalObservation_zero, errors_Wrap u3 m3)) \<and>
         (\<not> c1 \<and> u2 = None \<and> u3 = None \<and> u4 \<noteq> None \<longrightarrow>
            fst r = (ExternalObservation_zero, errors_Wrap u4 m4))"
  by (cases u2; cases u3; cases u4)
    (auto simp add: assms ExternalObservation_zero_def deref_assign)

text \<open>
  Claim C2, amended. When \<open>Get\<close> reports not-found, \<open>Observe\<close> returns an observation
  with \<open>ResourceExists\<close> false and a nil error. When \<open>Get\<close> succeeds, and the update of
  the custom resource that \<open>Observe\<close> makes when late initialisation has changed the
  parameters and the generation of the observation succeed too, \<open>Observe\<close> returns a nil
  error and an observation with \<open>ResourceExists\<close> true and \<open>ResourceUpToDate\<close> equal to
  the conjunction of the two flags of \<open>IsUpToDate\<close> on the Device as \<open>Observe\<close> leaves it.
  When \<open>Get\<close> succeeds and that update fails, \<open>Observe\<close> returns the empty observation
  and the error of the update wrapped with \<open>errManagedUpdateFailed\<close>; when the update
  succeeds or is not made and the generation of the observation fails, it returns the
  empty observation and the error of the generation wrapped with \<open>errGenObservation\<close>.
\<close>

theorem Observe_exists_and_up_to_date:
  "let r = Observe pk e s (DevicePtr d);
       err = snd (client_Get (client e) (ExternalName (deref s d)) None);
       device = fst (client_Get (client e) (ExternalName (deref s d)) None);
       initialized = set_ForProvider (deref s d)
                       (LateInitialize pk (ForProvider (Spec (deref s d))) device);
       changed = (ForProvider (Spec (deref s d)) \<noteq> ForProvider (Spec initialized));
       update_err = (if changed then fst (kube_Update (kube e) initialized) else None);
       generate_err = snd (GenerateObservation pk device)
   in (IsNotFound pk err \<longrightarrow> \<not> ResourceExists (fst (fst r)) \<and> snd (fst r) = None) \<and>
      (\<not> IsNotFound pk err \<and> err = None \<and> update_err = None \<and> generate_err = None \<longrightarrow>
         snd (fst r) = None \<and>
         ResourceExists (fst (fst r)) \<and>
         ResourceUpToDate (fst (fst r)) =
           (fst (IsUpToDate pk (deref (fst (snd r)) d) device) \<and>
            snd (IsUpToDate pk (deref (fst (snd r)) d) device))) \<and>
      (\<not> IsNotFound pk err \<and> err = None \<and> update_err \<noteq> None \<longrightarrow>
         fst r = (ExternalObservation_zero, errors_Wrap update_err errManagedUpdateFailed)) \<and>
      (\<not> IsNotFound pk err \<and> err = None \<and> update_err = None \<and> generate_err \<noteq> None \<longrightarrow>
         fst r = (ExternalObservation_zero, errors_Wrap generate_err errGenObservation))"
  unfolding Let_def
  by (rule Observe_result_cases [OF Observe_paths [of pk e s d, unfolded Let_def]])

lemma Observe_update_fails:
  "fst (Observe
     (packages0\<lparr>LateInitialize := (\<lambda>p device. p\<lparr>NetworkType := Some ''layer3''\<rparr>)\<rparr>)
     (external0\<lparr>kube := kube0\<lparr>kube_Update :=
        (\<lambda>obj. (Some (errors_New ''conflict''), obj))\<rparr>\<rparr>)
     (with_parameters parameters0) (DevicePtr 0)) =
     (\<lparr>ResourceExists = False, ResourceUpToDate = False, ConnectionDetails = None\<rparr>,
      Some (withMessage (errors_New ''conflict'') ''cannot update Device custom resource''))"
  by (simp add: Observe_paths Let_def setting_defs ExternalObservation_zero_def
      errManagedUpdateFailed_def)

lemma Observe_not_found:
  "fst (Observe packages0
     (external0\<lparr>client := client0\<lparr>client_Get :=
        (\<lambda>name opts. (None, Some (errors_New ''not found'')))\<rparr>\<rparr>)
     (with_parameters parameters0) (DevicePtr 0)) =
     (\<lparr>ResourceExists = False, ResourceUpToDate = False, ConnectionDetails = None\<rparr>, None)"
  by (simp add: Observe_paths Let_def setting_defs ExternalObservation_zero_def)

lemma Observe_generate_fails:
  "fst (Observe packages0
     (external0\<lparr>client := client0\<lparr>client_Get := (\<lambda>name opts. (None, None))\<rparr>\<rparr>)
     (with_parameters parameters0) (DevicePtr 0)) =
     (\<lparr>ResourceExists = False, ResourceUpToDate = False, ConnectionDetails = None\<rparr>,
      Some (withMessage (errors_New ''no device'') ''cannot generate observation''))"
  by (simp add: Observe_paths Let_def setting_defs ExternalObservation_zero_def
      errGenObservation_def)

theorem Observe_exists_and_up_to_date_witness:
  "IsNotFound packages0 (Some (errors_New ''not found'')) \<and>
   fst (Observe packages0
     (external0\<lparr>client := client0\<lparr>client_Get :=
        (\<lambda>name opts. (None, Some (errors_New ''not found'')))\<rparr>\<rparr>)
     (with_parameters parameters0) (DevicePtr 0)) =
     (\<lparr>ResourceExists = False, ResourceUpToDate = False, ConnectionDetails = None\<rparr>, None) \<and>
   \<not> IsNotFound packages0 None \<and>
   client_Get (client external0) ''device-1'' None =
     (Some \<lparr>packngo_ID = ''device-1'', packngo_Other = ''active''\<rparr>, None) \<and>
   LateInitialize packages0 parameters0
     (Some \<lparr>packngo_ID = ''device-1'', packngo_Other = ''active''\<rparr>) = parameters0 \<and>
   snd (GenerateObservation packages0
     (Some \<lparr>packngo_ID = ''device-1'', packngo_Other = ''active''\<rparr>)) = None \<and>
   fst (Observe packages0 external0 (with_parameters parameters0) (DevicePtr 0)) =
     (\<lparr>ResourceExists = True, ResourceUpToDate = True, ConnectionDetails = None\<rparr>, None) \<and>
   IsUpToDate packages0
     (deref (fst (snd (Observe packages0 external0 (with_parameters parameters0) (DevicePtr 0)))) 0)
     (Some \<lparr>packngo_ID = ''device-1'', packngo_Other = ''active''\<rparr>) = (True, True) \<and>
   fst (kube_Update (kube0\<lparr>kube_Update := (\<lambda>obj. (Some (errors_New ''conflict''), obj))\<rparr>)
     (set_ForProvider device0 (parameters0\<lparr>NetworkType := Some ''layer3''\<rparr>))) =
     Some (errors_New ''conflict'') \<and>
   fst (Observe
     (packages0\<lparr>LateInitialize := (\<lambda>p device. p\<lparr>NetworkType := Some ''layer3''\<rparr>)\<rparr>)
     (external0\<lparr>kube := kube0\<lparr>kube_Update :=
        (\<lambda>obj. (Some (errors_New ''conflict''), obj))\<rparr>\<rparr>)
     (with_parameters parameters0) (DevicePtr 0)) =
     (ExternalObservation_zero,
      Some (withMessage (errors_New ''conflict'') errManagedUpdateFailed)) \<and>
   snd (GenerateObservation packages0 None) = Some (errors_New ''no device'') \<and>
   fst (Observe packages0
     (external0\<lparr>client := client0\<lparr>client_Get := (\<lambda>name opts. (None, None))\<rparr>\<rparr>)
     (with_parameters parameters0) (DevicePtr 0)) =
     (ExternalObservation_zero, Some (withMessage (errors_New ''no device'') errGenObservation))"
proof -
  have n: "ExternalName (deref (with_parameters parameters0) 0) = ''device-1''"
    and p: "ForProvider (Spec (deref (with_parameters parameters0) 0)) = parameters0"
    and dv: "deref (with_parameters parameters0) 0 = set_ForProvider device0 parameters0"
    by (simp_all add: setting_defs)
  have a: "IsNotFound packages0 (Some (errors_New ''not found''))"
    and b: "\<not> IsNotFound packages0 None"
    and g: "client_Get (client external0) ''device-1'' None =
      (Some \<lparr>packngo_ID = ''device-1'', packngo_Other = ''active''\<rparr>, None)"
    and l: "LateInitialize packages0 q device = q"
    and o: "snd (GenerateObservation packages0
      (Some \<lparr>packngo_ID = ''device-1'', packngo_Other = ''active''\<rparr>)) = None"
      "snd (GenerateObservation packages0 None) = Some (errors_New ''no device'')"
    and u: "IsUpToDate packages0
     (deref (fst (snd (Observe packages0 external0 (with_parameters parameters0) (DevicePtr 0)))) 0)
     (Some \<lparr>packngo_ID = ''device-1'', packngo_Other = ''active''\<rparr>) = (True, True)"
    and k: "fst (kube_Update
      (kube0\<lparr>kube_Update := (\<lambda>obj. (Some (errors_New ''conflict''), obj))\<rparr>) obj) =
      Some (errors_New ''conflict'')"
    and c: "parameters0\<lparr>NetworkType := Some ''layer3''\<rparr> \<noteq> parameters0"
    for q device obj
    by (simp_all add: Observe0) (simp_all add: setting_defs)
  from Observe_exists_and_up_to_date [of packages0
      "external0\<lparr>client := client0\<lparr>client_Get :=
         (\<lambda>name opts. (None, Some (errors_New ''not found'')))\<rparr>\<rparr>"
      "with_parameters parameters0" 0]
    Observe_exists_and_up_to_date [of packages0 external0 "with_parameters parameters0" 0]
    Observe_exists_and_up_to_date [of
      "packages0\<lparr>LateInitialize := (\<lambda>p device. p\<lparr>NetworkType := Some ''layer3''\<rparr>)\<rparr>"
      "external0\<lparr>kube := kube0\<lparr>kube_Update :=
        (\<lambda>obj. (Some (errors_New ''conflict''), obj))\<rparr>\<rparr>"
      "with_parameters parameters0" 0]
    Observe_exists_and_up_to_date [of packages0
      "external0\<lparr>client := client0\<lparr>client_Get := (\<lambda>name opts. (None, None))\<rparr>\<rparr>"
      "with_parameters parameters0" 0]
    a b g l o u k c
  show ?thesis
    by (simp add: Let_def n p ForProvider_set_ForProvider Observe0 Observe_not_found
        Observe_update_fails Observe_generate_fails ExternalObservation_zero_def
        errManagedUpdateFailed_def errGenObservation_def)
qed

text \<open>
  The claim as stated fails: here \<open>Get\<close> succeeds, late initialisation changes the
  parameters, the update of the custom resource fails, and \<open>Observe\<close> returns an empty
  observation (\<open>ResourceExists\<close> false) with the wrapped error.
\<close>

theorem Observe_exists_counterexample:
  "client_Get (client (external0\<lparr>kube := kube0\<lparr>kube_Update :=
        (\<lambda>obj. (Some (errors_New ''conflict''), obj))\<rparr>\<rparr>))
     (ExternalName (deref (with_parameters parameters0) 0)) None =
     (Some \<lparr>packngo_ID = ''device-1'', packngo_Other = ''active''\<rparr>, None) \<and>
   \<not> IsNotFound (packages0\<lparr>LateInitialize :=
        (\<lambda>p device. p\<lparr>NetworkType := Some ''layer3''\<rparr>)\<rparr>) None \<and>
   fst (Observe
     (packages0\<lparr>LateInitialize := (\<lambda>p device. p\<lparr>NetworkType := Some ''layer3''\<rparr>)\<rparr>)
     (external0\<lparr>kube := kube0\<lparr>kube_Update :=
        (\<lambda>obj. (Some (errors_New ''conflict''), obj))\<rparr>\<rparr>)
     (with_parameters parameters0) (DevicePtr 0)) =
     (\<lparr>ResourceExists = False, ResourceUpToDate = False, ConnectionDetails = None\<rparr>,
      Some (withMessage (errors_New ''conflict'') ''cannot update Device custom resource''))"
  by (simp add: Observe_update_fails) (simp add: setting_defs)

subsection \<open>Update\<close>

text \<open>
  Claim C3, amended. When \<open>Get\<close> succeeds: if the observed device is not network-type
  up to date (the second flag of \<open>IsUpToDate\<close> is false) and \<open>Spec.ForProvider.NetworkType\<close>
  is non-nil, \<open>Update\<close> calls, after \<open>Get\<close>, only \<open>DeviceToNetworkType\<close> with that
  network type and returns its error wrapped; in every other case it calls, after
  \<open>Get\<close>, only the client's \<open>Update\<close> with the request \<open>NewUpdateDeviceRequest\<close>
  builds from the Device. When \<open>Get\<close> fails, \<open>Update\<close> returns that error wrapped with
  \<open>errGetDevice\<close> and makes no other call. The Device is not written.
\<close>

theorem Update_calls_after_Get:
  "let name = ExternalName (deref s d);
       device = fst (client_Get (client e) name None);
       err = snd (client_Get (client e) name None);
       params = ForProvider (Spec (deref s d));
       returned = fst (Update pk e s (DevicePtr d));
       calls = snd (snd (Update pk e s (DevicePtr d)))
   in (err = None \<and> \<not> snd (IsUpToDate pk (deref s d) device) \<and> NetworkType params \<noteq> None
         \<longrightarrow> calls = [Call_client_Get name,
                      Call_client_DeviceToNetworkType name (the (NetworkType params))] \<and>
             returned = errors_Wrap (client_DeviceToNetworkType (client e) name
                                       (the (NetworkType params))) errUpdateDevice) \<and>
      (err = None \<and> \<not> (\<not> snd (IsUpToDate pk (deref s d) device) \<and> NetworkType params \<noteq> None)
         \<longrightarrow> calls = [Call_client_Get name,
                      Call_client_Update name (NewUpdateDeviceRequest pk (deref s d))] \<and>
             returned = errors_Wrap (client_Update (client e) name
                                       (NewUpdateDeviceRequest pk (deref s d))) errUpdateDevice) \<and>
      (err \<noteq> None
         \<longrightarrow> calls = [Call_client_Get name] \<and> returned = errors_Wrap err errGetDevice) \<and>
      fst (snd (Update pk e s (DevicePtr d))) = s"
  by (simp add: Update_def Let_def split_beta)

theorem Update_calls_after_Get_witness:
  "snd (client_Get (client external0) ''device-1'' None) = None \<and>
   \<not> snd (IsUpToDate packages0
            (deref (with_parameters (parameters0\<lparr>NetworkType := Some ''layer2-bonded''\<rparr>)) 0)
            (fst (client_Get (client external0) ''device-1'' None))) \<and>
   Update packages0 external0
     (with_parameters (parameters0\<lparr>NetworkType := Some ''layer2-bonded''\<rparr>)) (DevicePtr 0) =
     (None, with_parameters (parameters0\<lparr>NetworkType := Some ''layer2-bonded''\<rparr>),
      [Call_client_Get ''device-1'',
       Call_client_DeviceToNetworkType ''device-1'' ''layer2-bonded'']) \<and>
   NetworkType (ForProvider (Spec (deref (with_parameters parameters0) 0))) = None \<and>
   Update packages0 external0 (with_parameters parameters0) (DevicePtr 0) =
     (None, with_parameters parameters0,
      [Call_client_Get ''device-1'', Call_client_Update ''device-1'' ''update'']) \<and>
   snd (client_Get
     (client (external0\<lparr>client := client0\<lparr>client_Get :=
        (\<lambda>name opts. (None, Some (errors_New ''timeout'')))\<rparr>\<rparr>)) ''device-1'' None) \<noteq> None \<and>
   Update packages0
     (external0\<lparr>client := client0\<lparr>client_Get :=
        (\<lambda>name opts. (None, Some (errors_New ''timeout'')))\<rparr>\<rparr>)
     (with_parameters (parameters0\<lparr>NetworkType := Some ''layer2-bonded''\<rparr>)) (DevicePtr 0) =
     (Some (withMessage (errors_New ''timeout'') ''cannot get Device''),
      with_parameters (parameters0\<lparr>NetworkType := Some ''layer2-bonded''\<rparr>),
      [Call_client_Get ''device-1''])"
proof -
  have n: "ExternalName (deref (with_parameters p) 0) = ''device-1''" for p
    by (simp add: setting_defs)
  have g: "client_Get (client external0) ''device-1'' None =
      (Some \<lparr>packngo_ID = ''device-1'', packngo_Other = ''active''\<rparr>, None)"
    by (simp add: setting_defs)
  have f: "client_Get
     (client (external0\<lparr>client := client0\<lparr>client_Get :=
        (\<lambda>name opts. (None, Some (errors_New ''timeout'')))\<rparr>\<rparr>)) ''device-1'' None =
     (None, Some (errors_New ''timeout''))"
    by simp
  have u: "snd (IsUpToDate packages0 (deref (with_parameters p) 0) device) =
      (NetworkType p = None)" for p device
    by (simp add: setting_defs)
  have np: "NetworkType parameters0 = None"
    by (simp add: parameters0_def)
  have t: "NetworkType (ForProvider (Spec (deref (with_parameters p) 0))) = NetworkType p"
    and r: "NewUpdateDeviceRequest packages0 (deref (with_parameters p) 0) = ''update''"
    and c: "client_Update (client external0) ''device-1'' ''update'' = None"
      "client_DeviceToNetworkType (client external0) ''device-1'' ''layer2-bonded'' = None" for p
    by (simp_all add: setting_defs)
  from Update_calls_after_Get [of "with_parameters (parameters0\<lparr>NetworkType := Some ''layer2-bonded''\<rparr>)"
      0 external0 packages0]
    Update_calls_after_Get [of "with_parameters parameters0" 0 external0 packages0]
    Update_calls_after_Get [of "with_parameters (parameters0\<lparr>NetworkType := Some ''layer2-bonded''\<rparr>)"
      0 "external0\<lparr>client := client0\<lparr>client_Get :=
        (\<lambda>name opts. (None, Some (errors_New ''timeout'')))\<rparr>\<rparr>" packages0]
  show ?thesis
    by (simp add: Let_def n g f u t r c np prod_eq_iff errGetDevice_def)
qed

text \<open>
  The claim as stated fails: here the Device has no \<open>NetworkType\<close> (one of the other
  cases), \<open>Get\<close> fails, and \<open>Update\<close> returns after that one call, without calling the
  client's \<open>Update\<close>.
\<close>

theorem Update_calls_counterexample:
  "NetworkType (ForProvider (Spec (deref (with_parameters parameters0) 0))) = None \<and>
   Update packages0
     (external0\<lparr>client := client0\<lparr>client_Get :=
        (\<lambda>name opts. (None, Some (errors_New ''timeout'')))\<rparr>\<rparr>)
     (with_parameters parameters0) (DevicePtr 0) =
     (Some (withMessage (errors_New ''timeout'') ''cannot get Device''),
      with_parameters parameters0, [Call_client_Get ''device-1''])"
  by (simp add: Update_def Let_def setting_defs errGetDevice_def)

subsection \<open>Delete\<close>

text \<open>
  Claim C8. \<open>Delete\<close> returns nil when the client's \<open>Delete\<close> succeeds or fails with a
  not-found error; any other error is returned wrapped with \<open>errDeleteDevice\<close>.
\<close>

theorem Delete_ignores_not_found:
  "let err = client_Delete (client e) (ExternalName (deref s d)) False;
       returned = fst (Delete pk e s (DevicePtr d))
   in (err = None \<or> IsNotFound pk err \<longrightarrow> returned = None) \<and>
      (\<forall>u. err = Some u \<and> \<not> IsNotFound pk err
         \<longrightarrow> returned = Some (withMessage u errDeleteDevice))"
  by (auto simp add: Delete_def Let_def deref_assign ExternalName_Status_SetConditions
      Ignore_def)

theorem Delete_ignores_not_found_witness:
  "client_Delete (client external0) (ExternalName (deref (with_parameters parameters0) 0)) False
     = None \<and>
   fst (Delete packages0 external0 (with_parameters parameters0) (DevicePtr 0)) = None \<and>
   IsNotFound packages0 (Some (errors_New ''not found'')) \<and>
   fst (Delete packages0
     (external0\<lparr>client := client0\<lparr>client_Delete :=
        (\<lambda>name force. Some (errors_New ''not found''))\<rparr>\<rparr>)
     (with_parameters parameters0) (DevicePtr 0)) = None \<and>
   \<not> IsNotFound packages0 (Some (errors_New ''forbidden'')) \<and>
   fst (Delete packages0
     (external0\<lparr>client := client0\<lparr>client_Delete :=
        (\<lambda>name force. Some (errors_New ''forbidden''))\<rparr>\<rparr>)
     (with_parameters parameters0) (DevicePtr 0)) =
     Some (withMessage (errors_New ''forbidden'') ''cannot delete Device'')"
proof -
  have a: "client_Delete (client external0)
      (ExternalName (deref (with_parameters parameters0) 0)) False = None"
    and b: "IsNotFound packages0 (Some (errors_New ''not found''))"
    and c: "\<not> IsNotFound packages0 (Some (errors_New ''forbidden''))"
    by (simp_all add: setting_defs)
  from Delete_ignores_not_found [of external0 "with_parameters parameters0" 0 packages0]
    Delete_ignores_not_found [of
      "external0\<lparr>client := client0\<lparr>client_Delete :=
         (\<lambda>name force. Some (errors_New ''not found''))\<rparr>\<rparr>"
      "with_parameters parameters0" 0 packages0]
    Delete_ignores_not_found [of
      "external0\<lparr>client := client0\<lparr>client_Delete :=
         (\<lambda>name force. Some (errors_New ''forbidden''))\<rparr>\<rparr>"
      "with_parameters parameters0" 0 packages0]
    a b c
  show ?thesis
    by (simp add: Let_def errDeleteDevice_def)
qed

subsection \<open>Create\<close>

lemma fst_Device_DeepCopy: "fst (Device_DeepCopy s d) = allocated s"
  by (simp add: Device_DeepCopy_def new_def split_beta)

lemma deref_Device_DeepCopy:
  "deref (snd (Device_DeepCopy s d)) p = (if p = allocated s then deref s d else deref s p)"
  by (simp add: Device_DeepCopy_def new_def split_beta deref_def assign_def)

lemma allocated_assign: "allocated (assign s p v) = allocated s"
  by (simp add: assign_def)

lemma Spec_Status_SetConditions: "Spec (Status_SetConditions pk dv c) = Spec dv"
  by (simp add: Status_SetConditions_def)

lemma resolveUserDataRefs_reads:
  "UserDataRef (ForProvider (Spec (deref s' d'))) = UserDataRef (ForProvider (Spec (deref s d)))
   \<Longrightarrow> resolveUserDataRefs pk e s' d' = resolveUserDataRefs pk e s d"
  by (simp add: resolveUserDataRefs_def)

lemma deref_after_copy:
  "deref (snd (Device_DeepCopy (assign s d dv) d)) d = dv"
  "deref (snd (Device_DeepCopy (assign s d dv) d)) (allocated s) = dv"
  by (simp_all add: deref_Device_DeepCopy deref_assign allocated_assign)

lemma resolveUserDataRefs_after_copy:
  "resolveUserDataRefs pk e
     (snd (Device_DeepCopy (assign s d (Status_SetConditions pk (deref s d) c)) d)) d =
   resolveUserDataRefs pk e s d"
  by (rule resolveUserDataRefs_reads) (simp add: deref_after_copy Spec_Status_SetConditions)

lemma Create_resolve_failed:
  assumes "UserDataRef (ForProvider (Spec (deref s d))) \<noteq> None"
    and "fst (resolveUserDataRefs pk e s d) = Return (ud, Some err)"
  shows "Create pk e s (DevicePtr d) =
           (Return (ExternalCreation_zero, Some err),
            snd (Device_DeepCopy (assign s d (Status_SetConditions pk (deref s d) Creating)) d),
            snd (resolveUserDataRefs pk e s d))"
  using assms
  by (simp add: Create_def Let_def split_beta resolveUserDataRefs_after_copy deref_after_copy
      Spec_Status_SetConditions)

lemma resolveUserDataRefs_invalid_kind:
  assumes "UserDataRef (ForProvider (Spec (deref s d))) = Some ref"
    and "Kind ref \<noteq> ''ConfigMap''" and "Kind ref \<noteq> ''Secret''"
  shows "resolveUserDataRefs pk e s d =
           (Return ([], Some (withMessage (errors_New errGetUserDataRef) errInvalidRefKind)), [])"
  using assms by (simp add: resolveUserDataRefs_def Let_def)

text \<open>
  Claim C4. For a Device whose \<open>UserDataRef\<close> is non-nil with a \<open>Kind\<close> that is neither
  \<open>"ConfigMap"\<close> nor \<open>"Secret"\<close>, whatever its \<open>Optional\<close>: \<open>resolveUserDataRefs\<close>
  returns the empty string and a new error wrapped with \<open>"invalid resource kind"\<close>,
  without calling the Kubernetes client, and \<open>Create\<close> returns that error.
\<close>

theorem invalid_kind_is_an_error:
  assumes "UserDataRef (ForProvider (Spec (deref s d))) = Some ref"
    and "Kind ref \<noteq> ''ConfigMap''" and "Kind ref \<noteq> ''Secret''"
  shows "resolveUserDataRefs pk e s d =
           (Return ([], Some (withMessage (errors_New errGetUserDataRef) errInvalidRefKind)), []) \<and>
         errInvalidRefKind = ''invalid resource kind'' \<and>
         fst (Create pk e s (DevicePtr d)) =
           Return (ExternalCreation_zero,
                   Some (withMessage (errors_New errGetUserDataRef) errInvalidRefKind))"
proof -
  note r = resolveUserDataRefs_invalid_kind [OF assms, of pk e]
  have "UserDataRef (ForProvider (Spec (deref s d))) \<noteq> None"
    using assms(1) by simp
  from Create_resolve_failed [OF this, of pk e "[]"
      "withMessage (errors_New errGetUserDataRef) errInvalidRefKind"] r
  show ?thesis
    by (simp add: errInvalidRefKind_def)
qed

theorem invalid_kind_is_an_error_witness:
  "UserDataRef (ForProvider (Spec (deref
     (with_parameters (parameters0\<lparr>UserDataRef :=
        Some (reference0\<lparr>Kind := ''Pod'', Optional := True\<rparr>)\<rparr>)) 0))) =
     Some (reference0\<lparr>Kind := ''Pod'', Optional := True\<rparr>) \<and>
   Kind (reference0\<lparr>Kind := ''Pod'', Optional := True\<rparr>) \<noteq> ''ConfigMap'' \<and>
   Kind (reference0\<lparr>Kind := ''Pod'', Optional := True\<rparr>) \<noteq> ''Secret'' \<and>
   Optional (reference0\<lparr>Kind := ''Pod'', Optional := True\<rparr>) \<and>
   fst (Create packages0 external0
     (with_parameters (parameters0\<lparr>UserDataRef :=
        Some (reference0\<lparr>Kind := ''Pod'', Optional := True\<rparr>)\<rparr>)) (DevicePtr 0)) =
     Return (\<lparr>Creation_ConnectionDetails = None\<rparr>,
       Some (withMessage (errors_New ''cannot get required resource for UserDataRef'')
               ''invalid resource kind''))"
proof -
  have a: "UserDataRef (ForProvider (Spec (deref
     (with_parameters (parameters0\<lparr>UserDataRef :=
        Some (reference0\<lparr>Kind := ''Pod'', Optional := True\<rparr>)\<rparr>)) 0))) =
     Some (reference0\<lparr>Kind := ''Pod'', Optional := True\<rparr>)"
    by (simp add: setting_defs)
  have b: "Kind (reference0\<lparr>Kind := ''Pod'', Optional := True\<rparr>) \<noteq> ''ConfigMap''"
    and c: "Kind (reference0\<lparr>Kind := ''Pod'', Optional := True\<rparr>) \<noteq> ''Secret''"
    and d: "Optional (reference0\<lparr>Kind := ''Pod'', Optional := True\<rparr>)"
    by simp_all
  from invalid_kind_is_an_error [OF a b c, of packages0 external0] a b c d
  show ?thesis
    by (simp add: ExternalCreation_zero_def errGetUserDataRef_def errInvalidRefKind_def)
qed

lemma resolveUserDataRefs_calls:
  "Call_client_Create request \<notin> set (snd (resolveUserDataRefs pk e s d))"
  by (simp add: resolveUserDataRefs_def Let_def split_beta split: option.splits sum.splits)

text \<open>
  Claim C10. For a Device with a non-nil \<open>UserDataRef\<close>, when \<open>resolveUserDataRefs\<close>
  returns an error, \<open>Create\<close> returns that error, the only calls it has made are those
  of \<open>resolveUserDataRefs\<close>, none of them the provider client's \<open>Create\<close>, and the
  external name and \<open>Status.AtProvider.ID\<close> of the Device are as they were.
\<close>

theorem Create_stops_on_resolve_error:
  assumes "UserDataRef (ForProvider (Spec (deref s d))) \<noteq> None"
    and "fst (resolveUserDataRefs pk e s d) = Return (ud, Some err)"
  shows "fst (Create pk e s (DevicePtr d)) = Return (ExternalCreation_zero, Some err) \<and>
         snd (snd (Create pk e s (DevicePtr d))) = snd (resolveUserDataRefs pk e s d) \<and>
         (\<forall>request. Call_client_Create request \<notin> set (snd (snd (Create pk e s (DevicePtr d))))) \<and>
         ExternalName (deref (fst (snd (Create pk e s (DevicePtr d)))) d) =
           ExternalName (deref s d) \<and>
         ID (AtProvider (Status (deref (fst (snd (Create pk e s (DevicePtr d)))) d))) =
           ID (AtProvider (Status (deref s d)))"
  by (simp add: Create_resolve_failed [OF assms] resolveUserDataRefs_calls deref_after_copy
      ExternalName_Status_SetConditions AtProvider_Status_SetConditions)

theorem Create_stops_on_resolve_error_witness:
  "UserDataRef (ForProvider (Spec (deref
     (with_parameters (parameters0\<lparr>UserDataRef := Some (reference0\<lparr>Kind := ''Secret''\<rparr>)\<rparr>)) 0)))
     \<noteq> None \<and>
   resolveUserDataRefs packages0 external0
     (with_parameters (parameters0\<lparr>UserDataRef := Some (reference0\<lparr>Kind := ''Secret''\<rparr>)\<rparr>)) 0 =
     (Return ([], Some (withMessage (errors_New ''secrets not found'')
                          ''cannot get required resource for UserDataRef'')),
      [Call_kube_Get_Secret (''default'', ''userdata'')]) \<and>
   fst (Create packages0 external0
     (with_parameters (parameters0\<lparr>UserDataRef := Some (reference0\<lparr>Kind := ''Secret''\<rparr>)\<rparr>))
     (DevicePtr 0)) =
     Return (\<lparr>Creation_ConnectionDetails = None\<rparr>,
       Some (withMessage (errors_New ''secrets not found'')
               ''cannot get required resource for UserDataRef'')) \<and>
   snd (snd (Create packages0 external0
     (with_parameters (parameters0\<lparr>UserDataRef := Some (reference0\<lparr>Kind := ''Secret''\<rparr>)\<rparr>))
     (DevicePtr 0))) = [Call_kube_Get_Secret (''default'', ''userdata'')] \<and>
   ExternalName (deref (fst (snd (Create packages0 external0
     (with_parameters (parameters0\<lparr>UserDataRef := Some (reference0\<lparr>Kind := ''Secret''\<rparr>)\<rparr>))
     (DevicePtr 0)))) 0) = ''device-1'' \<and>
   ID (AtProvider (Status (deref (fst (snd (Create packages0 external0
     (with_parameters (parameters0\<lparr>UserDataRef := Some (reference0\<lparr>Kind := ''Secret''\<rparr>)\<rparr>))
     (DevicePtr 0)))) 0))) = []"
proof -
  have a: "UserDataRef (ForProvider (Spec (deref
     (with_parameters (parameters0\<lparr>UserDataRef := Some (reference0\<lparr>Kind := ''Secret''\<rparr>)\<rparr>)) 0)))
     \<noteq> None"
    by (simp add: setting_defs)
  have b: "resolveUserDataRefs packages0 external0
     (with_parameters (parameters0\<lparr>UserDataRef := Some (reference0\<lparr>Kind := ''Secret''\<rparr>)\<rparr>)) 0 =
     (Return ([], Some (withMessage (errors_New ''secrets not found'')
                          ''cannot get required resource for UserDataRef'')),
      [Call_kube_Get_Secret (''default'', ''userdata'')])"
    by (simp add: resolveUserDataRefs_def Let_def setting_defs errGetUserDataRef_def)
  have c: "fst (resolveUserDataRefs packages0 external0
     (with_parameters (parameters0\<lparr>UserDataRef := Some (reference0\<lparr>Kind := ''Secret''\<rparr>)\<rparr>)) 0) =
     Return ([], Some (withMessage (errors_New ''secrets not found'')
                          ''cannot get required resource for UserDataRef''))"
    by (simp add: b)
  from Create_stops_on_resolve_error [OF a c] a b
  show ?thesis
    by (simp add: ExternalCreation_zero_def) (simp add: setting_defs)
qed

lemma resolveUserDataRefs_no_panic:
  "UserDataRef (ForProvider (Spec (deref s d))) \<noteq> None
   \<Longrightarrow> fst (resolveUserDataRefs pk e s d) \<noteq> Panic"
  by (auto simp add: resolveUserDataRefs_def Let_def split_beta split: sum.splits if_splits)

lemma resolveUserDataRefs_no_Update:
  "Call_kube_Update obj \<notin> set (snd (resolveUserDataRefs pk e s d))"
  by (simp add: resolveUserDataRefs_def Let_def split_beta split: option.splits sum.splits)

lemma Create_after_resolve:
  assumes "valid s d"
    and "UserDataRef (ForProvider (Spec (deref s d))) \<noteq> None"
    and "fst (resolveUserDataRefs pk e s d) = Return (ud, None)"
  shows "Create pk e s (DevicePtr d) =
     (let dC = Status_SetConditions pk (deref s d) Creating;
          copy = set_ForProvider dC ((ForProvider (Spec dC))\<lparr>UserData := Some ud\<rparr>);
          s3 = assign (snd (Device_DeepCopy (assign s d dC) d)) (allocated s) copy;
          request = CreateFromDevice pk copy
                      (client_GetProjectID (client e) (CredentialProjectID pk));
          tr3 = snd (resolveUserDataRefs pk e s d) @
                  [Call_client_GetProjectID (CredentialProjectID pk), Call_client_Create request]
      in if snd (client_Create (client e) request) \<noteq> None
         then (Return (ExternalCreation_zero,
                 errors_Wrap (snd (client_Create (client e) request)) errCreateDevice), s3, tr3)
         else case fst (client_Create (client e) request) of
                None \<Rightarrow> (Panic, s3, tr3)
              | Some dev \<Rightarrow>
                  let named = SetExternalName
                                (set_AtProvider dC ((AtProvider (Status dC))\<lparr>ID := packngo_ID dev\<rparr>))
                                (packngo_ID dev);
                      s6 = assign s3 d (snd (kube_Update (kube e) named));
                      tr6 = tr3 @ [Call_kube_Update named]
                  in if fst (kube_Update (kube e) named) \<noteq> None
                     then (Return (ExternalCreation_zero,
                             errors_Wrap (fst (kube_Update (kube e) named)) errManagedUpdateFailed),
                           s6, tr6)
                     else (Return (\<lparr>Creation_ConnectionDetails =
                                      GetConnectionDetails pk
                                        (fst (client_Create (client e) request))\<rparr>, None),
                           s6, tr6))"
proof -
  from assms(1) have "d \<noteq> allocated s" "allocated s \<noteq> d"
    by (simp_all add: valid_def)
  with assms(2,3) show ?thesis
    by (simp add: Create_def Let_def split_beta resolveUserDataRefs_after_copy deref_after_copy
        fst_Device_DeepCopy allocated_assign deref_assign assign_assign
        Spec_Status_SetConditions split: option.splits)
qed

lemma resolveUserDataRefs_no_Create:
  "Call_client_Create request \<notin> set (snd (resolveUserDataRefs pk e s d))"
  by (simp add: resolveUserDataRefs_def Let_def split_beta split: option.splits sum.splits)

lemma ForProvider_written:
  "ForProvider (Spec (SetExternalName (set_AtProvider (Status_SetConditions pk dv c) ob) n)) =
     ForProvider (Spec dv)"
  by (simp add: SetExternalName_def set_AtProvider_def Status_SetConditions_def)

text \<open>
  Claim C9. For a Device behind a pointer in use, with a non-nil \<open>UserDataRef\<close>: every
  object \<open>Create\<close> hands to the Kubernetes client's \<open>Update\<close> has the \<open>Spec.ForProvider\<close>
  the Device had before; when \<open>Create\<close> does not reach that \<open>Update\<close>, or when that
  \<open>Update\<close> writes back the \<open>Spec.ForProvider\<close> it was given, the \<open>Spec.ForProvider\<close> of
  the Device after \<open>Create\<close> is what it was before. The request passed to the provider
  client's \<open>Create\<close> is built from the object behind the new pointer, which is the copy
  with \<open>UserData\<close> set to the resolved user-data; the new pointer was not in use, and no
  other object in use is changed.
\<close>

theorem Create_keeps_parameters:
  assumes v: "valid s d"
    and r: "UserDataRef (ForProvider (Spec (deref s d))) \<noteq> None"
  shows "let s' = fst (snd (Create pk e s (DevicePtr d)));
             tr = snd (snd (Create pk e s (DevicePtr d)));
             created = Status_SetConditions pk (deref s d) Creating
         in (\<forall>obj. Call_kube_Update obj \<in> set tr
               \<longrightarrow> ForProvider (Spec obj) = ForProvider (Spec (deref s d))) \<and>
            ((\<forall>obj. Call_kube_Update obj \<notin> set tr) \<or>
             (\<forall>obj. ForProvider (Spec (snd (kube_Update (kube e) obj))) = ForProvider (Spec obj))
               \<longrightarrow> ForProvider (Spec (deref s' d)) = ForProvider (Spec (deref s d))) \<and>
            (\<forall>request. Call_client_Create request \<in> set tr
               \<longrightarrow> (\<exists>userdata.
                     fst (resolveUserDataRefs pk e s d) = Return (userdata, None) \<and>
                     deref s' (allocated s) =
                       set_ForProvider created
                         ((ForProvider (Spec created))\<lparr>UserData := Some userdata\<rparr>) \<and>
                     request = CreateFromDevice pk (deref s' (allocated s))
                                 (client_GetProjectID (client e) (CredentialProjectID pk)))) \<and>
            \<not> valid s (allocated s) \<and>
            (\<forall>p. valid s p \<and> p \<noteq> d \<longrightarrow> deref s' p = deref s p)"
proof (cases "fst (resolveUserDataRefs pk e s d)")
  case Panic
  with resolveUserDataRefs_no_panic [OF r, of pk e] show ?thesis
    by simp
next
  case (Return x)
  from v have ne: "d \<noteq> allocated s" "allocated s \<noteq> d"
    by (simp_all add: valid_def)
  show ?thesis
  proof (cases "snd x")
    case None
    with Return have eq: "fst (resolveUserDataRefs pk e s d) = Return (fst x, None)"
      by (cases x) simp
    show ?thesis
      unfolding Let_def Create_after_resolve [OF v r eq]
      using ne eq
      by (auto simp add: deref_assign deref_Device_DeepCopy allocated_assign valid_def
          resolveUserDataRefs_no_Update resolveUserDataRefs_no_Create ForProvider_written
          ForProvider_set_ForProvider Spec_Status_SetConditions
          split: option.splits)
  next
    case (Some err)
    with Return have eq: "fst (resolveUserDataRefs pk e s d) = Return (fst x, Some err)"
      by (cases x) simp
    show ?thesis
      unfolding Let_def Create_resolve_failed [OF r eq]
      using ne
      by (auto simp add: deref_assign deref_Device_DeepCopy allocated_assign valid_def
          resolveUserDataRefs_no_Update resolveUserDataRefs_no_Create Spec_Status_SetConditions)
  qed
qed

lemma resolveUserDataRefs0:
  "resolveUserDataRefs packages0 external0
     (two_devices (parameters0\<lparr>UserDataRef := Some reference0\<rparr>)) 0 =
     (Return (''#cloud-config'', None), [Call_kube_Get_ConfigMap (''default'', ''userdata'')])"
  by (simp add: resolveUserDataRefs_def Let_def setting_defs two_devices_def userdataMapKey_def)

lemma Create0:
  "snd (snd (Create packages0 external0
     (two_devices (parameters0\<lparr>UserDataRef := Some reference0\<rparr>)) (DevicePtr 0))) =
     [Call_kube_Get_ConfigMap (''default'', ''userdata''),
      Call_client_GetProjectID ''projectID'',
      Call_client_Create ''project-1:#cloud-config'',
      Call_kube_Update
        (SetExternalName
           (set_AtProvider
              (Status_SetConditions packages0
                 (set_ForProvider device0 (parameters0\<lparr>UserDataRef := Some reference0\<rparr>)) Creating)
              \<lparr>ID = ''device-1'', State = [], DeviceObservationOther = []\<rparr>) ''device-1'')]"
proof -
  have v: "valid (two_devices (parameters0\<lparr>UserDataRef := Some reference0\<rparr>)) 0"
    by (simp add: valid_def two_devices_def)
  have r: "UserDataRef (ForProvider (Spec (deref
      (two_devices (parameters0\<lparr>UserDataRef := Some reference0\<rparr>)) 0))) \<noteq> None"
    by (simp add: setting_defs two_devices_def)
  have eq: "fst (resolveUserDataRefs packages0 external0
     (two_devices (parameters0\<lparr>UserDataRef := Some reference0\<rparr>)) 0) =
     Return (''#cloud-config'', None)"
    by (simp add: resolveUserDataRefs0)
  show ?thesis
    unfolding Create_after_resolve [OF v r eq]
    by (simp add: Let_def resolveUserDataRefs0) (simp add: Let_def setting_defs two_devices_def)
qed

theorem Create_keeps_parameters_witness:
  "valid (two_devices (parameters0\<lparr>UserDataRef := Some reference0\<rparr>)) 0 \<and>
   UserDataRef (ForProvider (Spec (deref
     (two_devices (parameters0\<lparr>UserDataRef := Some reference0\<rparr>)) 0))) \<noteq> None \<and>
   Call_kube_Update
     (SetExternalName
        (set_AtProvider
           (Status_SetConditions packages0
              (set_ForProvider device0 (parameters0\<lparr>UserDataRef := Some reference0\<rparr>)) Creating)
           \<lparr>ID = ''device-1'', State = [], DeviceObservationOther = []\<rparr>) ''device-1'')
     \<in> set (snd (snd (Create packages0 external0
           (two_devices (parameters0\<lparr>UserDataRef := Some reference0\<rparr>)) (DevicePtr 0)))) \<and>
   Call_client_Create ''project-1:#cloud-config''
     \<in> set (snd (snd (Create packages0 external0
           (two_devices (parameters0\<lparr>UserDataRef := Some reference0\<rparr>)) (DevicePtr 0)))) \<and>
   (\<forall>obj. ForProvider (Spec (snd (kube_Update (kube external0) obj))) = ForProvider (Spec obj)) \<and>
   ForProvider (Spec (deref (fst (snd (Create packages0 external0
     (two_devices (parameters0\<lparr>UserDataRef := Some reference0\<rparr>)) (DevicePtr 0)))) 0)) =
     parameters0\<lparr>UserDataRef := Some reference0\<rparr> \<and>
   allocated (two_devices (parameters0\<lparr>UserDataRef := Some reference0\<rparr>)) = 2 \<and>
   UserData (ForProvider (Spec (deref (fst (snd (Create packages0 external0
     (two_devices (parameters0\<lparr>UserDataRef := Some reference0\<rparr>)) (DevicePtr 0)))) 2))) =
     Some ''#cloud-config'' \<and>
   valid (two_devices (parameters0\<lparr>UserDataRef := Some reference0\<rparr>)) 1 \<and>
   deref (fst (snd (Create packages0 external0
     (two_devices (parameters0\<lparr>UserDataRef := Some reference0\<rparr>)) (DevicePtr 0)))) 1 = device0"
proof -
  have v: "valid (two_devices (parameters0\<lparr>UserDataRef := Some reference0\<rparr>)) 0"
    "valid (two_devices (parameters0\<lparr>UserDataRef := Some reference0\<rparr>)) 1"
    by (simp_all add: valid_def two_devices_def)
  have r: "UserDataRef (ForProvider (Spec (deref
      (two_devices (parameters0\<lparr>UserDataRef := Some reference0\<rparr>)) 0))) \<noteq> None"
    by (simp add: setting_defs two_devices_def)
  have f: "\<forall>obj. ForProvider (Spec (snd (kube_Update (kube external0) obj))) =
      ForProvider (Spec obj)"
    by (simp add: external0_def kube0_def)
  have o: "ForProvider (Spec (deref
      (two_devices (parameters0\<lparr>UserDataRef := Some reference0\<rparr>)) 0)) =
      parameters0\<lparr>UserDataRef := Some reference0\<rparr>"
    and a: "allocated (two_devices (parameters0\<lparr>UserDataRef := Some reference0\<rparr>)) = 2"
    and d1: "deref (two_devices (parameters0\<lparr>UserDataRef := Some reference0\<rparr>)) 1 = device0"
    by (simp_all add: setting_defs two_devices_def)
  note kept = Create_keeps_parameters [OF v(1) r, of packages0 external0, unfolded Let_def]
  from kept have "\<forall>p. valid (two_devices (parameters0\<lparr>UserDataRef := Some reference0\<rparr>)) p \<and>
      p \<noteq> 0 \<longrightarrow>
      deref (fst (snd (Create packages0 external0
        (two_devices (parameters0\<lparr>UserDataRef := Some reference0\<rparr>)) (DevicePtr 0)))) p =
      deref (two_devices (parameters0\<lparr>UserDataRef := Some reference0\<rparr>)) p"
    by (elim conjE)
  from this [THEN spec, of 1] v(2) d1
  have other: "deref (fst (snd (Create packages0 external0
      (two_devices (parameters0\<lparr>UserDataRef := Some reference0\<rparr>)) (DevicePtr 0)))) 1 = device0"
    by simp
  from kept v r f other show ?thesis
    by (simp add: Create0 o a resolveUserDataRefs0 ForProvider_set_ForProvider)
qed

subsection \<open>The errors the methods return\<close>

lemma errors_Wrap_eq_Some:
  "errors_Wrap x m = Some err \<longleftrightarrow> (\<exists>u. x = Some u \<and> err = withMessage u m)"
  by (cases x) auto

lemma wraps_underlyingI:
  "u \<in> U \<Longrightarrow> c \<in> set package_error_strings \<Longrightarrow> wraps_underlying U (withMessage u c)"
  by (auto simp add: wraps_underlying_def)

lemma package_error_strings_mem:
  "errManagedUpdateFailed \<in> set package_error_strings"
  "errTrackPCUsage \<in> set package_error_strings"
  "errGetProviderConfigSecret \<in> set package_error_strings"
  "errGenObservation \<in> set package_error_strings"
  "errNewClient \<in> set package_error_strings"
  "errGetDevice \<in> set package_error_strings"
  "errCreateDevice \<in> set package_error_strings"
  "errUpdateDevice \<in> set package_error_strings"
  "errDeleteDevice \<in> set package_error_strings"
  by (simp_all add: package_error_strings_def)

lemma client_errorsI:
  "snd (client_Get (client e) name opts) = Some u \<Longrightarrow> u \<in> client_errors pk e"
  "snd (client_Create (client e) request) = Some u \<Longrightarrow> u \<in> client_errors pk e"
  "client_Update (client e) name request = Some u \<Longrightarrow> u \<in> client_errors pk e"
  "client_Delete (client e) name force = Some u \<Longrightarrow> u \<in> client_errors pk e"
  "client_DeviceToNetworkType (client e) name networkType = Some u \<Longrightarrow> u \<in> client_errors pk e"
  "fst (kube_Update (kube e) obj) = Some u \<Longrightarrow> u \<in> client_errors pk e"
  "snd (GenerateObservation pk device) = Some u \<Longrightarrow> u \<in> client_errors pk e"
  unfolding client_errors_def by blast+

lemma Connect_errors:
  assumes "snd (Connect pk c mg) = Some err"
  shows "err = errors_New errNotDevice \<or> wraps_underlying (connect_errors pk c) err"
proof (cases mg)
  case NotADevice
  with assms show ?thesis by (simp add: Connect_def)
next
  case (DevicePtr d)
  have "(\<exists>u. usage_Track c mg = Some u \<and> err = withMessage u errTrackPCUsage) \<or>
        (\<exists>u. snd (GetAuthInfo pk (connecter_kube c) mg) = Some u \<and>
             err = withMessage u errGetProviderConfigSecret) \<or>
        (\<exists>u cfg. snd (NewClient pk cfg) = Some u \<and> err = withMessage u errNewClient) \<or>
        (\<exists>u f cfg. newClientFn c = Some f \<and> snd (f cfg) = Some u \<and>
             err = withMessage u errNewClient)"
    using assms DevicePtr
    by (auto simp add: Connect_def Let_def split_beta errors_Wrap_eq_Some
        split: if_splits option.splits)
  then show ?thesis
    by (auto simp add: connect_errors_def intro!: wraps_underlyingI package_error_strings_mem)
qed

lemma Observe_error_cases:
  assumes "r =
     (if c1 then ((z1, None), s1, t1)
      else if u2 \<noteq> None then ((z2, errors_Wrap u2 m2), s2, t2)
      else if u3 \<noteq> None then ((z3, errors_Wrap u3 m3), s3, t3)
      else if u4 \<noteq> None then ((z4, errors_Wrap u4 m4), s4, t4)
      else ((ob, None), s5, t5))"
    and "snd (fst r) = Some err"
  shows "(\<exists>u. u2 = Some u \<and> err = withMessage u m2) \<or>
         (\<exists>u. u3 = Some u \<and> err = withMessage u m3) \<or>
         (\<exists>u. u4 = Some u \<and> err = withMessage u m4)"
  using assms(2) unfolding assms(1)
  by (auto simp add: errors_Wrap_eq_Some split: if_split_asm)

lemma Observe_errors:
  assumes "snd (fst (Observe pk e s mg)) = Some err"
  shows "err = errors_New errNotDevice \<or> wraps_underlying (client_errors pk e) err"
proof (cases mg)
  case NotADevice
  with assms show ?thesis by (simp add: Observe_def)
next
  case (DevicePtr d)
  from assms have "snd (fst (Observe pk e s (DevicePtr d))) = Some err"
    by (simp add: DevicePtr)
  from Observe_error_cases [OF Observe_paths [of pk e s d, unfolded Let_def] this]
  show ?thesis
    by (auto split: if_split_asm
        intro!: wraps_underlyingI package_error_strings_mem intro: client_errorsI)
qed

lemma Update_errors:
  assumes "fst (Update pk e s mg) = Some err"
  shows "err = errors_New errNotDevice \<or> wraps_underlying (client_errors pk e) err"
proof (cases mg)
  case NotADevice
  with assms show ?thesis by (simp add: Update_def)
next
  case (DevicePtr d)
  with assms have
    "(\<exists>u name opts. snd (client_Get (client e) name opts) = Some u \<and>
        err = withMessage u errGetDevice) \<or>
     (\<exists>u name t. client_DeviceToNetworkType (client e) name t = Some u \<and>
        err = withMessage u errUpdateDevice) \<or>
     (\<exists>u name request. client_Update (client e) name request = Some u \<and>
        err = withMessage u errUpdateDevice)"
    by (simp add: Update_def Let_def split_beta errors_Wrap_eq_Some split: if_split_asm) blast+
  then show ?thesis
    by (auto intro!: wraps_underlyingI package_error_strings_mem intro: client_errorsI)
qed

lemma Delete_errors:
  assumes "fst (Delete pk e s mg) = Some err"
  shows "err = errors_New errNotDevice \<or> wraps_underlying (client_errors pk e) err"
proof (cases mg)
  case NotADevice
  with assms show ?thesis by (simp add: Delete_def)
next
  case (DevicePtr d)
  with assms have
    "\<exists>u name force. client_Delete (client e) name force = Some u \<and>
        err = withMessage u errDeleteDevice"
    by (simp add: Delete_def Let_def errors_Wrap_eq_Some Ignore_def split: if_split_asm) blast
  then show ?thesis
    by (auto intro!: wraps_underlyingI package_error_strings_mem intro: client_errorsI)
qed

lemma resolveUserDataRefs_errors:
  assumes "fst (resolveUserDataRefs pk e s d) = Return (ud, Some err)"
  shows "resolve_error pk e err"
  using assms
  by (auto simp add: resolveUserDataRefs_def resolve_error_def Let_def split_beta
      errors_Wrap_eq_Some split: option.splits if_splits sum.splits)

lemma Create_error_sources:
  assumes "fst (Create pk e s (DevicePtr d)) = Return (cr, Some err)"
  shows "(\<exists>ud. fst (resolveUserDataRefs pk e s d) = Return (ud, Some err)) \<or>
         (\<exists>request u. snd (client_Create (client e) request) = Some u \<and>
            err = withMessage u errCreateDevice) \<or>
         (\<exists>obj u. fst (kube_Update (kube e) obj) = Some u \<and>
            err = withMessage u errManagedUpdateFailed)"
proof (cases "UserDataRef (ForProvider (Spec (deref s d))) = None")
  case True
  with assms show ?thesis
    by (simp add: Create_def Let_def split_beta deref_after_copy Spec_Status_SetConditions
        errors_Wrap_eq_Some split: if_split_asm option.split_asm) blast+
next
  case False
  show ?thesis
  proof (cases "fst (resolveUserDataRefs pk e s d)")
    case Panic
    with assms False show ?thesis
      by (simp add: Create_def Let_def split_beta deref_after_copy Spec_Status_SetConditions
          resolveUserDataRefs_after_copy)
  next
    case (Return x)
    with assms False show ?thesis
      by (cases x)
        (simp add: Create_def Let_def split_beta deref_after_copy Spec_Status_SetConditions
          resolveUserDataRefs_after_copy errors_Wrap_eq_Some
          split: if_split_asm option.split_asm, blast+)
  qed
qed

lemma Create_errors:
  assumes "fst (Create pk e s mg) = Return (cr, Some err)"
  shows "err = errors_New errNotDevice \<or> wraps_underlying (client_errors pk e) err \<or>
         resolve_error pk e err"
proof (cases mg)
  case NotADevice
  with assms show ?thesis by (simp add: Create_def)
next
  case (DevicePtr d)
  with assms have "fst (Create pk e s (DevicePtr d)) = Return (cr, Some err)"
    by simp
  from Create_error_sources [OF this] show ?thesis
    by (auto intro!: wraps_underlyingI package_error_strings_mem
        intro: client_errorsI resolveUserDataRefs_errors)
qed

text \<open>
  Claim C6, amended. Every non-nil error returned by \<open>Connect\<close>, \<open>Observe\<close>, \<open>Update\<close> or
  \<open>Delete\<close> is either the new error \<open>errNotDevice\<close> or the error of an underlying call
  wrapped with one of the string constants declared in the package. An error returned
  by \<open>Create\<close> is one of these, or one of the errors of \<open>resolveUserDataRefs\<close>, whose
  contexts are strings local to that function: the Kubernetes client's error wrapped
  with \<open>"cannot get required resource for UserDataRef"\<close>, a new error wrapped with
  \<open>"invalid resource kind"\<close>, or a new error wrapped with the message formatted from
  \<open>"could not find UserDataRef key %q"\<close> and the key.
\<close>

theorem errors_are_wrapped:
  "(\<forall>err. snd (Connect pk c mg) = Some err
      \<longrightarrow> err = errors_New errNotDevice \<or> wraps_underlying (connect_errors pk c) err) \<and>
   (\<forall>err. snd (fst (Observe pk e s mg)) = Some err
      \<longrightarrow> err = errors_New errNotDevice \<or> wraps_underlying (client_errors pk e) err) \<and>
   (\<forall>cr err. fst (Create pk e s mg) = Return (cr, Some err)
      \<longrightarrow> err = errors_New errNotDevice \<or> wraps_underlying (client_errors pk e) err \<or>
          resolve_error pk e err) \<and>
   (\<forall>err. fst (Update pk e s mg) = Some err
      \<longrightarrow> err = errors_New errNotDevice \<or> wraps_underlying (client_errors pk e) err) \<and>
   (\<forall>err. fst (Delete pk e s mg) = Some err
      \<longrightarrow> err = errors_New errNotDevice \<or> wraps_underlying (client_errors pk e) err)"
  using Connect_errors [of pk c mg] Observe_errors [of pk e s mg] Create_errors [of pk e s mg]
    Update_errors [of pk e s mg] Delete_errors [of pk e s mg]
  by blast

lemma Create_key_missing:
  "fst (Create packages0 external0
     (with_parameters (parameters0\<lparr>UserDataRef := Some (reference0\<lparr>Key := ''user-data''\<rparr>)\<rparr>))
     (DevicePtr 0)) =
     Return (\<lparr>Creation_ConnectionDetails = None\<rparr>,
       Some (withMessage (fmt_Errorf ''cannot get required resource for UserDataRef'')
               (''could not find UserDataRef key '' @ quote0 ''user-data'')))"
proof -
  have r: "UserDataRef (ForProvider (Spec (deref
      (with_parameters (parameters0\<lparr>UserDataRef := Some (reference0\<lparr>Key := ''user-data''\<rparr>)\<rparr>))
      0))) \<noteq> None"
    by (simp add: setting_defs)
  have eq: "fst (resolveUserDataRefs packages0 external0
      (with_parameters (parameters0\<lparr>UserDataRef := Some (reference0\<lparr>Key := ''user-data''\<rparr>)\<rparr>))
      0) =
      Return ([], Some (withMessage (fmt_Errorf ''cannot get required resource for UserDataRef'')
               (''could not find UserDataRef key '' @ quote0 ''user-data'')))"
    by (simp add: resolveUserDataRefs_def Let_def setting_defs errGetUserDataRef_def
        Sprintf_errRefKeyNotFoundFmt_def)
  show ?thesis
    by (simp add: Create_resolve_failed [OF r eq] ExternalCreation_zero_def)
qed

lemma key_missing_not_wrapped:
  "\<not> wraps_underlying U
       (withMessage (fmt_Errorf ''cannot get required resource for UserDataRef'')
          (''could not find UserDataRef key '' @ quote0 ''user-data''))"
  by (simp add: wraps_underlying_def package_error_strings_def quote0_def
      errManagedUpdateFailed_def errTrackPCUsage_def errGetProviderConfigSecret_def
      errGenObservation_def errNewClient_def errNotDevice_def errGetDevice_def
      errCreateDevice_def errUpdateDevice_def errDeleteDevice_def)

text \<open>
  The claim as stated fails: here the referenced ConfigMap has no key \<open>user-data\<close>, and
  \<open>Create\<close> returns a new error whose context is formatted from that key; it is not the
  wrap of any error with a constant of the package.
\<close>

theorem errors_are_wrapped_counterexample:
  "fst (Create packages0 external0
     (with_parameters (parameters0\<lparr>UserDataRef := Some (reference0\<lparr>Key := ''user-data''\<rparr>)\<rparr>))
     (DevicePtr 0)) =
     Return (\<lparr>Creation_ConnectionDetails = None\<rparr>,
       Some (withMessage (fmt_Errorf ''cannot get required resource for UserDataRef'')
               (''could not find UserDataRef key '' @ quote0 ''user-data''))) \<and>
   \<not> wraps_underlying UNIV
       (withMessage (fmt_Errorf ''cannot get required resource for UserDataRef'')
          (''could not find UserDataRef key '' @ quote0 ''user-data''))"
  using Create_key_missing key_missing_not_wrapped [of UNIV] by simp

theorem errors_are_wrapped_witness:
  "snd (Connect packages0 (connecter0\<lparr>usage_Track := (\<lambda>mg. Some (errors_New ''conflict''))\<rparr>)
          (DevicePtr 0)) =
     Some (withMessage (errors_New ''conflict'') ''cannot track ProviderConfig usage'') \<and>
   wraps_underlying
     (connect_errors packages0 (connecter0\<lparr>usage_Track := (\<lambda>mg. Some (errors_New ''conflict''))\<rparr>))
     (withMessage (errors_New ''conflict'') ''cannot track ProviderConfig usage'') \<and>
   snd (fst (Observe packages0
     (external0\<lparr>client := client0\<lparr>client_Get :=
        (\<lambda>name opts. (None, Some (errors_New ''timeout'')))\<rparr>\<rparr>)
     (with_parameters parameters0) (DevicePtr 0))) =
     Some (withMessage (errors_New ''timeout'') ''cannot get Device'') \<and>
   fst (Create packages0
     (external0\<lparr>client := client0\<lparr>client_Create :=
        (\<lambda>request. (None, Some (errors_New ''quota'')))\<rparr>\<rparr>)
     (with_parameters parameters0) (DevicePtr 0)) =
     Return (\<lparr>Creation_ConnectionDetails = None\<rparr>,
             Some (withMessage (errors_New ''quota'') ''cannot create Device'')) \<and>
   fst (Create packages0 external0
     (with_parameters (parameters0\<lparr>UserDataRef := Some (reference0\<lparr>Key := ''user-data''\<rparr>)\<rparr>))
     (DevicePtr 0)) =
     Return (\<lparr>Creation_ConnectionDetails = None\<rparr>,
       Some (withMessage (fmt_Errorf ''cannot get required resource for UserDataRef'')
               (''could not find UserDataRef key '' @ quote0 ''user-data''))) \<and>
   resolve_error packages0 external0
     (withMessage (fmt_Errorf ''cannot get required resource for UserDataRef'')
        (''could not find UserDataRef key '' @ quote0 ''user-data'')) \<and>
   fst (Update packages0
     (external0\<lparr>client := client0\<lparr>client_Get :=
        (\<lambda>name opts. (None, Some (errors_New ''timeout'')))\<rparr>\<rparr>)
     (with_parameters parameters0) (DevicePtr 0)) =
     Some (withMessage (errors_New ''timeout'') ''cannot get Device'') \<and>
   wraps_underlying
     (client_errors packages0
        (external0\<lparr>client := client0\<lparr>client_Get :=
           (\<lambda>name opts. (None, Some (errors_New ''timeout'')))\<rparr>\<rparr>))
     (withMessage (errors_New ''timeout'') ''cannot get Device'') \<and>
   fst (Delete packages0
     (external0\<lparr>client := client0\<lparr>client_Delete :=
        (\<lambda>name force. Some (errors_New ''forbidden''))\<rparr>\<rparr>)
     (with_parameters parameters0) (DevicePtr 0)) =
     Some (withMessage (errors_New ''forbidden'') ''cannot delete Device'') \<and>
   wraps_underlying
     (client_errors packages0
        (external0\<lparr>client := client0\<lparr>client_Delete :=
           (\<lambda>name force. Some (errors_New ''forbidden''))\<rparr>\<rparr>))
     (withMessage (errors_New ''forbidden'') ''cannot delete Device'')"
proof -
  have a: "snd (Connect packages0
      (connecter0\<lparr>usage_Track := (\<lambda>mg. Some (errors_New ''conflict''))\<rparr>) (DevicePtr 0)) =
      Some (withMessage (errors_New ''conflict'') ''cannot track ProviderConfig usage'')"
    by (simp add: Connect_def Let_def connecter0_def errTrackPCUsage_def)
  have b: "snd (fst (Observe packages0
     (external0\<lparr>client := client0\<lparr>client_Get :=
        (\<lambda>name opts. (None, Some (errors_New ''timeout'')))\<rparr>\<rparr>)
     (with_parameters parameters0) (DevicePtr 0))) =
     Some (withMessage (errors_New ''timeout'') ''cannot get Device'')"
    by (simp add: Observe_paths Let_def setting_defs errGetDevice_def)
  have c: "fst (Create packages0
     (external0\<lparr>client := client0\<lparr>client_Create :=
        (\<lambda>request. (None, Some (errors_New ''quota'')))\<rparr>\<rparr>)
     (with_parameters parameters0) (DevicePtr 0)) =
     Return (\<lparr>Creation_ConnectionDetails = None\<rparr>,
             Some (withMessage (errors_New ''quota'') ''cannot create Device''))"
    by (simp add: Create_def Let_def split_beta setting_defs Device_DeepCopy_def
        ExternalCreation_zero_def errCreateDevice_def)
  have d: "fst (Update packages0
     (external0\<lparr>client := client0\<lparr>client_Get :=
        (\<lambda>name opts. (None, Some (errors_New ''timeout'')))\<rparr>\<rparr>)
     (with_parameters parameters0) (DevicePtr 0)) =
     Some (withMessage (errors_New ''timeout'') ''cannot get Device'')"
    by (simp add: Update_def Let_def setting_defs errGetDevice_def)
  have e: "fst (Delete packages0
     (external0\<lparr>client := client0\<lparr>client_Delete :=
        (\<lambda>name force. Some (errors_New ''forbidden''))\<rparr>\<rparr>)
     (with_parameters parameters0) (DevicePtr 0)) =
     Some (withMessage (errors_New ''forbidden'') ''cannot delete Device'')"
    by (simp add: Delete_def Let_def setting_defs errDeleteDevice_def Ignore_def)
  note errors_are_wrapped [of packages0 connecter0 "DevicePtr 0" external0
      "with_parameters (parameters0\<lparr>UserDataRef := Some (reference0\<lparr>Key := ''user-data''\<rparr>)\<rparr>)"]
  with Create_key_missing key_missing_not_wrapped [of "client_errors packages0 external0"]
  have f: "resolve_error packages0 external0
     (withMessage (fmt_Errorf ''cannot get required resource for UserDataRef'')
        (''could not find UserDataRef key '' @ quote0 ''user-data''))"
    by simp
  from errors_are_wrapped [of packages0
      "connecter0\<lparr>usage_Track := (\<lambda>mg. Some (errors_New ''conflict''))\<rparr>" "DevicePtr 0"
      "external0\<lparr>client := client0\<lparr>client_Get :=
         (\<lambda>name opts. (None, Some (errors_New ''timeout'')))\<rparr>\<rparr>"
      "with_parameters parameters0"]
    errors_are_wrapped [of packages0 connecter0 "DevicePtr 0"
      "external0\<lparr>client := client0\<lparr>client_Delete :=
         (\<lambda>name force. Some (errors_New ''forbidden''))\<rparr>\<rparr>"
      "with_parameters parameters0"]
    a b c d e f Create_key_missing
  show ?thesis
    by simp
qed

subsection \<open>MockClient\<close>

text \<open>
  \<open>Delete\<close>, \<open>Get\<close>, \<open>GetFacilityID\<close> and \<open>GetProjectID\<close> return what the stored function
  returns on their arguments, and panic when it is nil.
\<close>

lemma MockClient_delegates:
  "MockClient_Delete c requestID =
     (case MockDelete c of None \<Rightarrow> Panic | Some f \<Rightarrow> Return (f requestID))"
  "MockClient_Get c requestID options =
     (case MockGet c of None \<Rightarrow> Panic | Some f \<Rightarrow> Return (f requestID options))"
  "MockClient_GetFacilityID c ident =
     (case MockGetFacilityID c of None \<Rightarrow> Panic | Some f \<Rightarrow> Return (f ident))"
  "MockClient_GetProjectID c ident =
     (case MockGetProjectID c of None \<Rightarrow> Panic | Some f \<Rightarrow> Return (f ident))"
  by (simp_all add: MockClient_Delete_def MockClient_Get_def MockClient_GetFacilityID_def
      MockClient_GetProjectID_def)

lemma MockClient_delegates0:
  "MockClient_Delete mock0 ''request-1'' = Return (None, None)"
  "MockClient_Get mock0 ''request-1'' None = Return (Some ''request-1'', None, None)"
  "MockClient_GetFacilityID mock0 ''ewr1'' = Return ''ewr1''"
  "MockClient_GetProjectID mock0 ''project-1'' = Return ''project-1''"
  by (simp_all add: MockClient_delegates mock0_def)

text \<open>
  Claim C5. \<open>Create\<close> does not return the result of \<open>MockCreate\<close> on its arguments:
  \<open>MockCreate\<close> takes a request and a project id, \<open>Create\<close> has and passes the request
  only. On the mock below, whose \<open>MockCreate\<close> answers with the project id it is given,
  what \<open>Create\<close> denotes on a request is not one result: it still varies with a
  project id that no argument of \<open>Create\<close> supplies.
\<close>

theorem MockClient_Create_lacks_projectID:
  "(case MockClient_Create mock0 None of
      Panic \<Rightarrow> False
    | Return pending \<Rightarrow>
        pending ''project-1'' = (Some ''project-1'', None, None) \<and>
        pending ''project-2'' = (Some ''project-2'', None, None) \<and>
        pending ''project-1'' \<noteq> pending ''project-2'')"
  by (simp add: MockClient_Create_def mock0_def)

end
